theory Spec2Isabelle
  imports Complex_Main
begin

section \<open>Model selectors of my\_model\_selectors.py\<close>

text \<open>
  A shallow embedding of the four selector classes of \<^verbatim>\<open>src/my_model_selectors.py\<close>.
  Python exceptions are values of \<open>py_exception\<close>; a call that may raise returns
  \<open>py_exception + 'a\<close> with \<open>Inl\<close> the exception. The Python value \<^verbatim>\<open>None\<close> of a model
  variable is \<open>None :: 'm option\<close>. The selector object \<^verbatim>\<open>self\<close> is a record that is
  passed explicitly; \<^verbatim>\<open>SelectorCV.select\<close> assigns to \<^verbatim>\<open>self.X\<close> and
  \<^verbatim>\<open>self.lengths\<close>, so it returns the record it leaves behind, also when it raises.
  What \<^verbatim>\<open>print\<close> writes is not part of the model, but that it may raise is. The
  process-wide \<^verbatim>\<open>warnings\<close> filters are left out.
\<close>

subsection \<open>Exceptions, floating-point values and the libraries\<close>

datatype py_exception =
    NameError | AttributeError | KeyError | IndexError | ValueError | OSError
  | FitError | ScoreError

text \<open>
  Log-likelihoods are Python floats: a double, printed here as the real number it stands
  for, or one of the special values \<^verbatim>\<open>inf\<close>, \<^verbatim>\<open>-inf\<close> and \<^verbatim>\<open>nan\<close>.
\<close>

datatype pyfloat = Finite real | PosInf | NegInf | NaN

text \<open>
  The two messages of \<^verbatim>\<open>base_model\<close>, each formatted from the word and the state count:
  \<^verbatim>\<open>"model created for {} with {} states"\<close> and \<^verbatim>\<open>"failure on {} with {} states"\<close>.
\<close>

datatype py_message = Model_created string int | Failure_on string int

type_synonym frame = "real list"
type_synonym sequence = "frame list"
type_synonym Xlengths = "frame list \<times> nat list"

text \<open>
  What the module takes from outside the repository is a parameter of the model.
  \<^item> \<open>GaussianHMM_fit n_components random_state X lengths\<close> stands for hmmlearn's
    \<^verbatim>\<open>GaussianHMM(n_components, "diag", n_iter=1000, random_state, verbose=False).fit(X, lengths)\<close>
    and \<open>hmm_score m X lengths\<close> for \<^verbatim>\<open>m.score(X, lengths)\<close>. Both may raise. With an
    integer \<^verbatim>\<open>random_state\<close> the trainer is a function of its arguments.
  \<^item> \<open>py_print msg\<close> is \<^verbatim>\<open>print\<close> of a message: \<open>None\<close> when it returns, \<open>Some e\<close>
    when writing to the standard output raises \<open>e\<close> (a closed or broken stream, an
    encoding error).
  \<^item> \<open>fl_round r\<close> is the double that an arithmetic operation of exact result \<open>r\<close>
    delivers: \<open>r\<close> rounded, or an infinity on overflow.
  \<^item> \<open>mean_nonempty xs\<close> is \<^verbatim>\<open>np.mean\<close> of a non-empty list of floats, with numpy's
    own order of summation and its roundings.
  \<^item> \<open>log_positive k\<close> is \<^verbatim>\<open>np.log\<close> of a positive integer.
\<close>

record 'm libraries =
  GaussianHMM_fit :: "int \<Rightarrow> int \<Rightarrow> frame list \<Rightarrow> nat list \<Rightarrow> py_exception + 'm"
  hmm_score :: "'m \<Rightarrow> frame list \<Rightarrow> nat list \<Rightarrow> py_exception + pyfloat"
  py_print :: "py_message \<Rightarrow> py_exception option"
  fl_round :: "real \<Rightarrow> pyfloat"
  mean_nonempty :: "pyfloat list \<Rightarrow> pyfloat"
  log_positive :: "nat \<Rightarrow> pyfloat"

text \<open>
  Float arithmetic: the IEEE rules for the special values, and the rounding of the exact
  result for two doubles. The first argument is the rounding, \<open>fl_round\<close> of the libraries.
\<close>

fun pf_neg :: "pyfloat \<Rightarrow> pyfloat" where
  "pf_neg (Finite a) = Finite (- a)"
| "pf_neg PosInf = NegInf"
| "pf_neg NegInf = PosInf"
| "pf_neg NaN = NaN"

fun pf_add :: "(real \<Rightarrow> pyfloat) \<Rightarrow> pyfloat \<Rightarrow> pyfloat \<Rightarrow> pyfloat" where
  "pf_add rnd (Finite a) (Finite b) = rnd (a + b)"
| "pf_add rnd NaN _ = NaN"
| "pf_add rnd _ NaN = NaN"
| "pf_add rnd PosInf NegInf = NaN"
| "pf_add rnd NegInf PosInf = NaN"
| "pf_add rnd PosInf _ = PosInf"
| "pf_add rnd _ PosInf = PosInf"
| "pf_add rnd NegInf _ = NegInf"
| "pf_add rnd _ NegInf = NegInf"

definition pf_sub :: "(real \<Rightarrow> pyfloat) \<Rightarrow> pyfloat \<Rightarrow> pyfloat \<Rightarrow> pyfloat" where
  "pf_sub rnd a b = pf_add rnd a (pf_neg b)"

fun pf_mul :: "(real \<Rightarrow> pyfloat) \<Rightarrow> pyfloat \<Rightarrow> pyfloat \<Rightarrow> pyfloat" where
  "pf_mul rnd (Finite a) (Finite b) = rnd (a * b)"
| "pf_mul rnd NaN _ = NaN"
| "pf_mul rnd _ NaN = NaN"
| "pf_mul rnd (Finite a) PosInf = (if a = 0 then NaN else if 0 < a then PosInf else NegInf)"
| "pf_mul rnd (Finite a) NegInf = (if a = 0 then NaN else if 0 < a then NegInf else PosInf)"
| "pf_mul rnd PosInf (Finite b) = (if b = 0 then NaN else if 0 < b then PosInf else NegInf)"
| "pf_mul rnd NegInf (Finite b) = (if b = 0 then NaN else if 0 < b then NegInf else PosInf)"
| "pf_mul rnd PosInf PosInf = PosInf"
| "pf_mul rnd NegInf NegInf = PosInf"
| "pf_mul rnd PosInf NegInf = NegInf"
| "pf_mul rnd NegInf PosInf = NegInf"

text \<open>
  \<^verbatim>\<open>a < b\<close> on floats: every comparison with \<^verbatim>\<open>nan\<close> is false, and two doubles compare
  as the numbers they stand for.
\<close>

fun pf_less :: "pyfloat \<Rightarrow> pyfloat \<Rightarrow> bool" where
  "pf_less (Finite a) (Finite b) = (a < b)"
| "pf_less NaN _ = False"
| "pf_less _ NaN = False"
| "pf_less _ NegInf = False"
| "pf_less PosInf _ = False"
| "pf_less NegInf _ = True"
| "pf_less _ PosInf = True"

text \<open>
  \<^verbatim>\<open>np.mean\<close> of a list of floats. On the empty list numpy warns (a RuntimeWarning, which
  is not an exception) and returns \<^verbatim>\<open>nan\<close>.
\<close>

definition np_mean :: "'m libraries \<Rightarrow> pyfloat list \<Rightarrow> pyfloat" where
  "np_mean lib xs = (if xs = [] then NaN else mean_nonempty lib xs)"

text \<open>\<^verbatim>\<open>np.log\<close> of a length: \<^verbatim>\<open>-inf\<close> at 0 (again only a warning).\<close>

definition np_log :: "'m libraries \<Rightarrow> nat \<Rightarrow> pyfloat" where
  "np_log lib k = (if k = 0 then NegInf else log_positive lib k)"

subsection \<open>The selector\<close>

text \<open>
  The fields \<^verbatim>\<open>ModelSelector.__init__\<close> sets. A dict is an association list in
  insertion order, looked up with \<open>map_of\<close>.
\<close>

record selector =
  words :: "(string \<times> sequence list) list"
  hwords :: "(string \<times> Xlengths) list"
  sequences :: "sequence list"
  X :: "frame list"
  lengths :: "nat list"
  this_word :: string
  n_constant :: int
  min_n_components :: int
  max_n_components :: int
  random_state :: int
  verbose :: bool
  all_word_Xlengths :: "(string \<times> Xlengths) list"

definition ModelSelector_init ::
  "(string \<times> sequence list) list \<Rightarrow> (string \<times> Xlengths) list \<Rightarrow> string \<Rightarrow>
   int \<Rightarrow> int \<Rightarrow> int \<Rightarrow> int \<Rightarrow> bool \<Rightarrow> py_exception + selector" where
  "ModelSelector_init all_word_sequences all_word_Xl word n_const min_n max_n seed verb =
     (case map_of all_word_sequences word of
        None \<Rightarrow> Inl KeyError
      | Some seqs \<Rightarrow>
          (case map_of all_word_Xl word of
             None \<Rightarrow> Inl KeyError
           | Some (x, l) \<Rightarrow>
               Inr \<lparr> words = all_word_sequences, hwords = all_word_Xl, sequences = seqs,
                     X = x, lengths = l, this_word = word, n_constant = n_const,
                     min_n_components = min_n, max_n_components = max_n,
                     random_state = seed, verbose = verb,
                     all_word_Xlengths = all_word_Xl \<rparr>))"

text \<open>
  \<^verbatim>\<open>base_model\<close>, lines 38 to 47. The fit on the selector's current \<^verbatim>\<open>X\<close> and
  \<^verbatim>\<open>lengths\<close> and, under \<^verbatim>\<open>verbose\<close>, the first \<^verbatim>\<open>print\<close> stand under a bare
  \<^verbatim>\<open>except\<close>. Its handler returns \<^verbatim>\<open>None\<close>, but under \<^verbatim>\<open>verbose\<close> it prints first, and
  what that \<^verbatim>\<open>print\<close> raises leaves \<^verbatim>\<open>base_model\<close>.
\<close>

definition base_model :: "'m libraries \<Rightarrow> selector \<Rightarrow> int \<Rightarrow> py_exception + 'm option" where
  "base_model lib s num_states =
     (case (case GaussianHMM_fit lib num_states (random_state s) (X s) (lengths s) of
              Inl e \<Rightarrow> Inl e
            | Inr hmm_model \<Rightarrow>
                (if verbose s then
                   (case py_print lib (Model_created (this_word s) num_states) of
                      Some e \<Rightarrow> Inl e
                    | None \<Rightarrow> Inr hmm_model)
                 else Inr hmm_model)) of
        Inr hmm_model \<Rightarrow> Inr (Some hmm_model)
      | Inl e \<Rightarrow>
          (if verbose s then
             (case py_print lib (Failure_on (this_word s) num_states) of
                Some e' \<Rightarrow> Inl e'
              | None \<Rightarrow> Inr None)
           else Inr None))"

text \<open>
  \<^verbatim>\<open>hmm_model.score(X, lengths)\<close> on a variable that may hold \<^verbatim>\<open>None\<close>: the attribute
  lookup on \<^verbatim>\<open>None\<close> raises AttributeError.
\<close>

definition model_score ::
  "'m libraries \<Rightarrow> 'm option \<Rightarrow> frame list \<Rightarrow> nat list \<Rightarrow> py_exception + pyfloat" where
  "model_score lib hmm_model x l =
     (case hmm_model of
        None \<Rightarrow> Inl AttributeError
      | Some m \<Rightarrow> hmm_score lib m x l)"

subsection \<open>SelectorConstant\<close>

definition SelectorConstant_select :: "'m libraries \<Rightarrow> selector \<Rightarrow> py_exception + 'm option" where
  "SelectorConstant_select lib s =
     (let best_num_components = n_constant s
      in base_model lib s best_num_components)"

subsection \<open>SelectorBIC\<close>

text \<open>
  Line 88 reads the name \<^verbatim>\<open>n\<close>. It is not a local of \<^verbatim>\<open>select\<close> (those are \<^verbatim>\<open>self\<close>,
  \<^verbatim>\<open>best_score\<close>, \<^verbatim>\<open>best_model\<close>, \<^verbatim>\<open>n_components\<close>, \<^verbatim>\<open>hmm_model\<close>, \<^verbatim>\<open>logL\<close>, \<^verbatim>\<open>logN\<close>,
  \<^verbatim>\<open>parameters\<close>, \<^verbatim>\<open>score\<close>), the module binds no such global and it is no builtin, so
  loading it raises NameError.
\<close>

definition load_name_n :: "py_exception + int" where
  "load_name_n = Inl NameError"

text \<open>One pass of the loop body, lines 85 to 93, on the pair (best\_score, best\_model).\<close>

definition bic_body ::
  "'m libraries \<Rightarrow> selector \<Rightarrow> pyfloat \<times> 'm option \<Rightarrow> int \<Rightarrow>
   py_exception + (pyfloat \<times> 'm option)" where
  "bic_body lib s best n_components =
     (case base_model lib s n_components of
        Inl e \<Rightarrow> Inl e
      | Inr hmm_model \<Rightarrow>
          (case model_score lib hmm_model (X s) (lengths s) of
             Inl e \<Rightarrow> Inl e
           | Inr logL \<Rightarrow>
               (let logN = np_log lib (length (X s)) in
                case load_name_n of
                  Inl e \<Rightarrow> Inl e
                | Inr n \<Rightarrow>
                    (case X s of
                       [] \<Rightarrow> Inl IndexError
                     | x0 # _ \<Rightarrow>
                         (let parameters = n * n + 2 * n * int (length x0) - 1;
                              score = pf_add (fl_round lib)
                                        (pf_mul (fl_round lib) (Finite (- 2)) logL)
                                        (pf_mul (fl_round lib)
                                           (fl_round lib (real_of_int parameters)) logN)
                          in if pf_less score (fst best)
                             then Inr (score, hmm_model)
                             else Inr best)))))"

fun bic_loop ::
  "'m libraries \<Rightarrow> selector \<Rightarrow> int list \<Rightarrow> pyfloat \<times> 'm option \<Rightarrow>
   py_exception + 'm option" where
  "bic_loop lib s [] best = Inr (snd best)"
| "bic_loop lib s (n_components # rest) best =
     (case bic_body lib s best n_components of
        Inl e \<Rightarrow> Inl e
      | Inr best' \<Rightarrow> bic_loop lib s rest best')"

definition SelectorBIC_select :: "'m libraries \<Rightarrow> selector \<Rightarrow> py_exception + 'm option" where
  "SelectorBIC_select lib s =
     (case bic_loop lib s [min_n_components s .. max_n_components s] (PosInf, None) of
        Inr best_model \<Rightarrow> Inr best_model
      | Inl e \<Rightarrow> base_model lib s (n_constant s))"

subsection \<open>SelectorDIC\<close>

text \<open>The inner loop, lines 120 to 123, appending to \<^verbatim>\<open>scores\<close>.\<close>

fun dic_scores ::
  "'m libraries \<Rightarrow> selector \<Rightarrow> 'm option \<Rightarrow> string list \<Rightarrow> pyfloat list \<Rightarrow>
   py_exception + pyfloat list" where
  "dic_scores lib s hmm_model [] scores = Inr scores"
| "dic_scores lib s hmm_model (word # rest) scores =
     (if word \<noteq> this_word s then
        (case map_of (all_word_Xlengths s) word of
           None \<Rightarrow> Inl KeyError
         | Some (word_X, word_lengths) \<Rightarrow>
             (case model_score lib hmm_model word_X word_lengths of
                Inl e \<Rightarrow> Inl e
              | Inr v \<Rightarrow> dic_scores lib s hmm_model rest (scores @ [v])))
      else dic_scores lib s hmm_model rest scores)"

text \<open>One pass of the outer loop body, lines 118 to 127.\<close>

definition dic_body ::
  "'m libraries \<Rightarrow> selector \<Rightarrow> string list \<Rightarrow> pyfloat \<times> 'm option \<Rightarrow> int \<Rightarrow>
   py_exception + (pyfloat \<times> 'm option)" where
  "dic_body lib s list_of_words best n_components =
     (case base_model lib s n_components of
        Inl e \<Rightarrow> Inl e
      | Inr hmm_model \<Rightarrow>
          (case dic_scores lib s hmm_model list_of_words [] of
             Inl e \<Rightarrow> Inl e
           | Inr scores \<Rightarrow>
               (case model_score lib hmm_model (X s) (lengths s) of
                  Inl e \<Rightarrow> Inl e
                | Inr own \<Rightarrow>
                    (let score = pf_sub (fl_round lib) own (np_mean lib scores)
                     in if pf_less (fst best) score
                        then Inr (score, hmm_model)
                        else Inr best))))"

fun dic_loop ::
  "'m libraries \<Rightarrow> selector \<Rightarrow> string list \<Rightarrow> int list \<Rightarrow> pyfloat \<times> 'm option \<Rightarrow>
   py_exception + 'm option" where
  "dic_loop lib s list_of_words [] best = Inr (snd best)"
| "dic_loop lib s list_of_words (n_components # rest) best =
     (case dic_body lib s list_of_words best n_components of
        Inl e \<Rightarrow> Inl e
      | Inr best' \<Rightarrow> dic_loop lib s list_of_words rest best')"

definition SelectorDIC_select :: "'m libraries \<Rightarrow> selector \<Rightarrow> py_exception + 'm option" where
  "SelectorDIC_select lib s =
     (let list_of_words = map fst (words s) in
      case dic_loop lib s list_of_words
             [min_n_components s .. max_n_components s] (NegInf, None) of
        Inr best_model \<Rightarrow> Inr best_model
      | Inl e \<Rightarrow> base_model lib s (n_constant s))"

subsection \<open>SelectorCV\<close>

text \<open>
  scikit-learn's \<^verbatim>\<open>KFold\<close> (a library, used with its default \<^verbatim>\<open>shuffle=False\<close>), as
  its documentation defines it. The constructor rejects \<^verbatim>\<open>n_splits\<close> below 2 with a
  ValueError. \<^verbatim>\<open>split\<close> on \<open>n_samples\<close> items rejects \<^verbatim>\<open>n_splits > n_samples\<close> with a
  ValueError and otherwise yields \<open>n_splits\<close> pairs (train indices, test indices): the test
  folds are consecutive index ranges, the first \<open>n_samples mod n_splits\<close> of size
  \<open>n_samples div n_splits + 1\<close> and the others of size \<open>n_samples div n_splits\<close>, and the
  train indices are all the other indices in increasing order.
\<close>

definition KFold :: "nat \<Rightarrow> py_exception + nat" where
  "KFold n_splits = (if n_splits \<le> 1 then Inl ValueError else Inr n_splits)"

definition fold_sizes :: "nat \<Rightarrow> nat \<Rightarrow> nat list" where
  "fold_sizes n_splits n_samples =
     map (\<lambda>i. n_samples div n_splits + (if i < n_samples mod n_splits then 1 else 0))
         [0..<n_splits]"

fun test_folds :: "nat \<Rightarrow> nat list \<Rightarrow> nat list list" where
  "test_folds current [] = []"
| "test_folds current (fold_size # rest) =
     [current..<current + fold_size] # test_folds (current + fold_size) rest"

definition KFold_split :: "nat \<Rightarrow> nat \<Rightarrow> py_exception + (nat list \<times> nat list) list" where
  "KFold_split n_splits n_samples =
     (if n_samples < n_splits then Inl ValueError
      else Inr (map (\<lambda>test_index.
                       (filter (\<lambda>i. i \<notin> set test_index) [0..<n_samples], test_index))
                    (test_folds 0 (fold_sizes n_splits n_samples))))"

text \<open>
  Lines 147 and 150: the splitter is built from \<^verbatim>\<open>min(3, len(self.sequences))\<close> and run on
  the sequence list, of which it only reads the length.
\<close>

definition cv_split :: "sequence list \<Rightarrow> py_exception + (nat list \<times> nat list) list" where
  "cv_split seqs =
     (case KFold (min 3 (length seqs)) of
        Inl e \<Rightarrow> Inl e
      | Inr split_method \<Rightarrow> KFold_split split_method (length seqs))"

text \<open>\<^verbatim>\<open>[sequences[idx] for idx in split_index_list]\<close>, with the IndexError of a list.\<close>

fun index_all :: "'a list \<Rightarrow> nat list \<Rightarrow> py_exception + 'a list" where
  "index_all xs [] = Inr []"
| "index_all xs (idx # rest) =
     (if idx < length xs then
        (case index_all xs rest of
           Inl e \<Rightarrow> Inl e
         | Inr ys \<Rightarrow> Inr (xs ! idx # ys))
      else Inl IndexError)"

text \<open>
  Modelled from the spec: \<^verbatim>\<open>asl_utils.combine_sequences\<close> is imported by the module and
  is not among the sources. The spec has it build a FlattenedView from the sequences at the
  given indices: the concatenated frames of those sequences, in index-list order, and the
  list of their lengths.
\<close>

definition combine_sequences :: "nat list \<Rightarrow> sequence list \<Rightarrow> py_exception + Xlengths" where
  "combine_sequences split_index_list seqs =
     (case index_all seqs split_index_list of
        Inl e \<Rightarrow> Inl e
      | Inr sequences_fold \<Rightarrow> Inr (concat sequences_fold, map length sequences_fold))"

text \<open>
  One pass of the fold loop, lines 151 to 157. Line 151 assigns the training split to
  \<^verbatim>\<open>self.X\<close> and \<^verbatim>\<open>self.lengths\<close>; the selector is returned as the pass leaves it. The
  result holds the new values of \<^verbatim>\<open>logL_arr\<close> and \<^verbatim>\<open>hmm_model\<close>.
\<close>

definition cv_fold ::
  "'m libraries \<Rightarrow> int \<Rightarrow> selector \<Rightarrow> pyfloat list \<Rightarrow> nat list \<times> nat list \<Rightarrow>
   (py_exception + (pyfloat list \<times> 'm option)) \<times> selector" where
  "cv_fold lib n_components s logL_arr cv_idx =
     (case combine_sequences (fst cv_idx) (sequences s) of
        Inl e \<Rightarrow> (Inl e, s)
      | Inr (x', l') \<Rightarrow>
          (let s' = s\<lparr>X := x', lengths := l'\<rparr>
           in case base_model lib s' n_components of
                Inl e \<Rightarrow> (Inl e, s')
              | Inr hmm_model \<Rightarrow>
                  (case combine_sequences (snd cv_idx) (sequences s') of
                     Inl e \<Rightarrow> (Inl e, s')
                   | Inr (X_test, test_lengths) \<Rightarrow>
                       (case model_score lib hmm_model X_test test_lengths of
                          Inl e \<Rightarrow> (Inl e, s')
                        | Inr logL \<Rightarrow> (Inr (logL_arr @ [logL], hmm_model), s')))))"

fun cv_folds ::
  "'m libraries \<Rightarrow> int \<Rightarrow> (nat list \<times> nat list) list \<Rightarrow> selector \<Rightarrow>
   pyfloat list \<Rightarrow> 'm option \<Rightarrow> (py_exception + (pyfloat list \<times> 'm option)) \<times> selector" where
  "cv_folds lib n_components [] s logL_arr hmm_model = (Inr (logL_arr, hmm_model), s)"
| "cv_folds lib n_components (cv_idx # rest) s logL_arr hmm_model =
     (case cv_fold lib n_components s logL_arr cv_idx of
        (Inl e, s') \<Rightarrow> (Inl e, s')
      | (Inr (logL_arr', hmm_model'), s') \<Rightarrow>
          cv_folds lib n_components rest s' logL_arr' hmm_model')"

text \<open>One pass of the outer loop body, lines 147 to 163.\<close>

definition cv_body ::
  "'m libraries \<Rightarrow> selector \<Rightarrow> pyfloat \<times> 'm option \<Rightarrow> int \<Rightarrow>
   (py_exception + (pyfloat \<times> 'm option)) \<times> selector" where
  "cv_body lib s best n_components =
     (case cv_split (sequences s) of
        Inl e \<Rightarrow> (Inl e, s)
      | Inr folds \<Rightarrow>
          (case cv_folds lib n_components folds s [] None of
             (Inl e, s') \<Rightarrow> (Inl e, s')
           | (Inr (logL_arr, hmm_model), s') \<Rightarrow>
               (let avg_score = np_mean lib logL_arr
                in if pf_less (fst best) avg_score
                   then (Inr (avg_score, hmm_model), s')
                   else (Inr best, s'))))"

fun cv_loop ::
  "'m libraries \<Rightarrow> selector \<Rightarrow> int list \<Rightarrow> pyfloat \<times> 'm option \<Rightarrow>
   (py_exception + 'm option) \<times> selector" where
  "cv_loop lib s [] best = (Inr (snd best), s)"
| "cv_loop lib s (n_components # rest) best =
     (case cv_body lib s best n_components of
        (Inl e, s') \<Rightarrow> (Inl e, s')
      | (Inr best', s') \<Rightarrow> cv_loop lib s' rest best')"

text \<open>
  \<^verbatim>\<open>SelectorCV.select\<close>: the handler of line 166 calls \<^verbatim>\<open>base_model\<close> on the selector as
  the interrupted loop left it.
\<close>

definition SelectorCV_select ::
  "'m libraries \<Rightarrow> selector \<Rightarrow> (py_exception + 'm option) \<times> selector" where
  "SelectorCV_select lib s =
     (case cv_loop lib s [min_n_components s .. max_n_components s] (NegInf, None) of
        (Inr best_model, s') \<Rightarrow> (Inr best_model, s')
      | (Inl e, s') \<Rightarrow> (base_model lib s' (n_constant s'), s'))"

subsection \<open>The four strategies behind one call\<close>

datatype strategy = Constant | BIC | DIC | CV

text \<open>
  \<open>select\<close> returns what the method returns or raises, and the selector after the call.
  Only \<^verbatim>\<open>SelectorCV.select\<close> assigns to a field.
\<close>

fun select ::
  "strategy \<Rightarrow> 'm libraries \<Rightarrow> selector \<Rightarrow> (py_exception + 'm option) \<times> selector" where
  "select Constant lib s = (SelectorConstant_select lib s, s)"
| "select BIC lib s = (SelectorBIC_select lib s, s)"
| "select DIC lib s = (SelectorDIC_select lib s, s)"
| "select CV lib s = SelectorCV_select lib s"

subsection \<open>A small trainer for concrete runs\<close>

text \<open>
  A stand-in for the libraries on which the selectors can be run. A fitted model records
  its state count and the data it was fitted on. Fitting fails on fewer frames than states,
  and so does scoring; the log-likelihood of a model with \<open>n\<close> states on \<open>k\<close> frames is
  \<open>- n * k\<close>. Printing succeeds. The arithmetic is exact, which is what doubles give on the
  small integers of the concrete runs below; the logarithm is never read in them, since
  line 88 raises first.
\<close>

datatype toy_model = ToyModel int "frame list" "nat list"

definition toy_fit :: "int \<Rightarrow> int \<Rightarrow> frame list \<Rightarrow> nat list \<Rightarrow> py_exception + toy_model" where
  "toy_fit n_components seed x l =
     (if int (length x) < n_components then Inl FitError
      else Inr (ToyModel n_components x l))"

fun toy_score :: "toy_model \<Rightarrow> frame list \<Rightarrow> nat list \<Rightarrow> py_exception + pyfloat" where
  "toy_score (ToyModel n x_train l_train) x l =
     (if int (length x) < n then Inl ScoreError
      else Inr (Finite (- (real_of_int n * real (length x)))))"

fun exact_div :: "pyfloat \<Rightarrow> nat \<Rightarrow> pyfloat" where
  "exact_div (Finite a) k = Finite (a / real k)"
| "exact_div PosInf k = PosInf"
| "exact_div NegInf k = NegInf"
| "exact_div NaN k = NaN"

definition exact_mean :: "pyfloat list \<Rightarrow> pyfloat" where
  "exact_mean xs = exact_div (foldl (pf_add Finite) (Finite 0) xs) (length xs)"

definition toy :: "toy_model libraries" where
  "toy = \<lparr> GaussianHMM_fit = toy_fit, hmm_score = toy_score,
           py_print = (\<lambda>msg. None), fl_round = Finite,
           mean_nonempty = exact_mean, log_positive = (\<lambda>k. Finite (ln (real k))) \<rparr>"

text \<open>The same libraries with a standard output that is closed: every \<^verbatim>\<open>print\<close> raises.\<close>

definition toy_closed_stdout :: "toy_model libraries" where
  "toy_closed_stdout = toy\<lparr>py_print := (\<lambda>msg. Some OSError)\<rparr>"

text \<open>
  Concrete selectors, as \<^verbatim>\<open>__init__\<close> builds them. Feature vectors have one component.
  \<open>three_pairs\<close>: one word with three sequences of two frames, search range 2 to 2.
\<close>

definition three_pairs :: selector where
  "three_pairs =
     \<lparr> words = [(''A'', [[[1], [2]], [[3], [4]], [[5], [6]]])],
       hwords = [(''A'', ([[1], [2], [3], [4], [5], [6]], [2, 2, 2]))],
       sequences = [[[1], [2]], [[3], [4]], [[5], [6]]],
       X = [[1], [2], [3], [4], [5], [6]], lengths = [2, 2, 2], this_word = ''A'',
       n_constant = 3, min_n_components = 2, max_n_components = 2,
       random_state = 14, verbose = False,
       all_word_Xlengths = [(''A'', ([[1], [2], [3], [4], [5], [6]], [2, 2, 2]))] \<rparr>"


text \<open>
  \<open>long_first\<close>: one word with sequences of 3, 1 and 1 frames, search range 3 to 4,
  constant 2.
\<close>

definition long_first :: selector where
  "long_first =
     \<lparr> words = [(''A'', [[[1], [2], [3]], [[4]], [[5]]])],
       hwords = [(''A'', ([[1], [2], [3], [4], [5]], [3, 1, 1]))],
       sequences = [[[1], [2], [3]], [[4]], [[5]]],
       X = [[1], [2], [3], [4], [5]], lengths = [3, 1, 1], this_word = ''A'',
       n_constant = 2, min_n_components = 3, max_n_components = 4,
       random_state = 14, verbose = False,
       all_word_Xlengths = [(''A'', ([[1], [2], [3], [4], [5]], [3, 1, 1]))] \<rparr>"

text \<open>
  \<open>three_words\<close>: the selector of word A in a corpus of three words, of which B has a
  single frame; search range 2 to 3, constant 1.
\<close>

definition three_words :: selector where
  "three_words =
     \<lparr> words = [(''A'', [[[1], [2], [3]]]), (''B'', [[[4]]]), (''C'', [[[5], [6], [7]]])],
       hwords = [(''A'', ([[1], [2], [3]], [3])), (''B'', ([[4]], [1])),
                 (''C'', ([[5], [6], [7]], [3]))],
       sequences = [[[1], [2], [3]]],
       X = [[1], [2], [3]], lengths = [3], this_word = ''A'',
       n_constant = 1, min_n_components = 2, max_n_components = 3,
       random_state = 14, verbose = False,
       all_word_Xlengths = [(''A'', ([[1], [2], [3]], [3])), (''B'', ([[4]], [1])),
                            (''C'', ([[5], [6], [7]], [3]))] \<rparr>"

text \<open>
  \<open>one_word\<close>: a corpus of the single word A with one sequence of three frames, the
  default search range cut to 2 to 3, constant 3.
\<close>

definition one_word :: selector where
  "one_word =
     \<lparr> words = [(''A'', [[[1], [2], [3]]])],
       hwords = [(''A'', ([[1], [2], [3]], [3]))],
       sequences = [[[1], [2], [3]]],
       X = [[1], [2], [3]], lengths = [3], this_word = ''A'',
       n_constant = 3, min_n_components = 2, max_n_components = 3,
       random_state = 14, verbose = False,
       all_word_Xlengths = [(''A'', ([[1], [2], [3]], [3]))] \<rparr>"

text \<open>\<open>loud_word\<close>: the selector \<open>one_word\<close> built with \<^verbatim>\<open>verbose=True\<close>.\<close>

definition loud_word :: selector where
  "loud_word = one_word\<lparr>verbose := True\<rparr>"

text \<open>
  The score of section 4.3 of the specification, as a formula on real numbers, for the
  comparison with what \<open>SelectorBIC_select\<close> returns.
\<close>

definition spec_bic_score :: "real \<Rightarrow> int \<Rightarrow> nat \<Rightarrow> nat \<Rightarrow> real" where
  "spec_bic_score log_likelihood n_states d n_observations =
     - 2 * log_likelihood
     + real_of_int (n_states * n_states + 2 * n_states * int d - 1) * ln (real n_observations)"

section \<open>Properties\<close>

lemma upto_nonempty: "i \<le> j \<Longrightarrow> [i..j] \<noteq> []"
  by (simp add: upto.simps)

subsection \<open>SelectorCV only assigns \<^verbatim>\<open>X\<close> and \<^verbatim>\<open>lengths\<close>\<close>

lemma cv_fold_frame: "\<exists>x l. snd (cv_fold lib n s acc idx) = s\<lparr>X := x, lengths := l\<rparr>"
proof (cases "combine_sequences (fst idx) (sequences s)")
  case (Inl e)
  then have "snd (cv_fold lib n s acc idx) = s\<lparr>X := X s, lengths := lengths s\<rparr>"
    by (simp add: cv_fold_def)
  then show ?thesis by blast
next
  case (Inr v)
  obtain x' l' where v: "v = (x', l')" by (cases v)
  with Inr have "snd (cv_fold lib n s acc idx) = s\<lparr>X := x', lengths := l'\<rparr>"
    by (simp add: cv_fold_def Let_def split: sum.splits prod.splits)
  then show ?thesis by blast
qed

lemma cv_folds_frame: "\<exists>x l. snd (cv_folds lib n folds s acc m) = s\<lparr>X := x, lengths := l\<rparr>"
proof (induction folds arbitrary: s acc m)
  case Nil
  have "snd (cv_folds lib n [] s acc m) = s\<lparr>X := X s, lengths := lengths s\<rparr>" by simp
  then show ?case by blast
next
  case (Cons idx rest)
  obtain r s1 where step: "cv_fold lib n s acc idx = (r, s1)" by (cases "cv_fold lib n s acc idx")
  obtain x1 l1 where s1: "s1 = s\<lparr>X := x1, lengths := l1\<rparr>"
    using cv_fold_frame[of lib n s acc idx] step by auto
  show ?case
  proof (cases r)
    case (Inl e)
    with step s1 have "snd (cv_folds lib n (idx # rest) s acc m) = s\<lparr>X := x1, lengths := l1\<rparr>"
      by simp
    then show ?thesis by blast
  next
    case (Inr v)
    obtain acc' m' where v: "v = (acc', m')" by (cases v)
    from Cons.IH[of s1 acc' m'] obtain x2 l2 where
      "snd (cv_folds lib n rest s1 acc' m') = s1\<lparr>X := x2, lengths := l2\<rparr>" by blast
    with step s1 Inr v have "snd (cv_folds lib n (idx # rest) s acc m) = s\<lparr>X := x2, lengths := l2\<rparr>"
      by simp
    then show ?thesis by blast
  qed
qed

lemma cv_body_frame: "\<exists>x l. snd (cv_body lib s best n) = s\<lparr>X := x, lengths := l\<rparr>"
proof (cases "cv_split (sequences s)")
  case (Inl e)
  then have "snd (cv_body lib s best n) = s\<lparr>X := X s, lengths := lengths s\<rparr>"
    by (simp add: cv_body_def)
  then show ?thesis by blast
next
  case (Inr folds)
  obtain x l where "snd (cv_folds lib n folds s [] None) = s\<lparr>X := x, lengths := l\<rparr>"
    using cv_folds_frame by blast
  with Inr have "snd (cv_body lib s best n) = s\<lparr>X := x, lengths := l\<rparr>"
    by (auto simp: cv_body_def Let_def split: sum.splits prod.splits)
  then show ?thesis by blast
qed

lemma cv_loop_frame: "\<exists>x l. snd (cv_loop lib s ns best) = s\<lparr>X := x, lengths := l\<rparr>"
proof (induction ns arbitrary: s best)
  case Nil
  have "snd (cv_loop lib s [] best) = s\<lparr>X := X s, lengths := lengths s\<rparr>" by simp
  then show ?case by blast
next
  case (Cons n rest)
  obtain r s1 where step: "cv_body lib s best n = (r, s1)" by (cases "cv_body lib s best n")
  obtain x1 l1 where s1: "s1 = s\<lparr>X := x1, lengths := l1\<rparr>"
    using cv_body_frame[of lib s best n] step by auto
  show ?case
  proof (cases r)
    case (Inl e)
    with step s1 have "snd (cv_loop lib s (n # rest) best) = s\<lparr>X := x1, lengths := l1\<rparr>"
      by simp
    then show ?thesis by blast
  next
    case (Inr best')
    from Cons.IH[of s1 best'] obtain x2 l2 where
      "snd (cv_loop lib s1 rest best') = s1\<lparr>X := x2, lengths := l2\<rparr>" by blast
    with step s1 Inr have "snd (cv_loop lib s (n # rest) best) = s\<lparr>X := x2, lengths := l2\<rparr>"
      by simp
    then show ?thesis by blast
  qed
qed

subsection \<open>A second call starts where the first one ended\<close>

lemma cv_fold_view_raise:
  "combine_sequences (fst idx) (sequences s) = Inl e \<Longrightarrow> cv_fold lib n s acc idx = (Inl e, s)"
  by (simp add: cv_fold_def)

lemma cv_fold_view_assign:
  "combine_sequences (fst idx) (sequences s) = Inr v \<Longrightarrow>
   cv_fold lib n (s\<lparr>X := x, lengths := l\<rparr>) acc idx = cv_fold lib n s acc idx"
  by (cases v) (simp add: cv_fold_def)

lemma cv_folds_view:
  assumes "t = s\<lparr>X := x, lengths := l\<rparr>"
  shows "fst (cv_folds lib n folds t acc m) = fst (cv_folds lib n folds s acc m) \<and>
         (snd (cv_folds lib n folds t acc m) = snd (cv_folds lib n folds s acc m) \<or>
          snd (cv_folds lib n folds s acc m) = s \<and> snd (cv_folds lib n folds t acc m) = t)"
proof (cases folds)
  case Nil
  then show ?thesis by simp
next
  case (Cons idx rest)
  show ?thesis
  proof (cases "combine_sequences (fst idx) (sequences s)")
    case (Inl e)
    then have "cv_fold lib n s acc idx = (Inl e, s)" "cv_fold lib n t acc idx = (Inl e, t)"
      using assms by (simp_all add: cv_fold_view_raise)
    with Cons show ?thesis by simp
  next
    case (Inr v)
    then have "cv_fold lib n t acc idx = cv_fold lib n s acc idx"
      using assms cv_fold_view_assign by simp
    with Cons show ?thesis by simp
  qed
qed

lemma cv_body_view:
  assumes "t = s\<lparr>X := x, lengths := l\<rparr>"
  shows "fst (cv_body lib t best n) = fst (cv_body lib s best n) \<and>
         (snd (cv_body lib t best n) = snd (cv_body lib s best n) \<or>
          snd (cv_body lib s best n) = s \<and> snd (cv_body lib t best n) = t)"
proof (cases "cv_split (sequences s)")
  case (Inl e)
  with assms show ?thesis by (simp add: cv_body_def)
next
  case (Inr folds)
  have sq: "cv_split (sequences t) = Inr folds" using Inr assms by simp
  obtain r1 s1 where a: "cv_folds lib n folds s [] None = (r1, s1)"
    by (cases "cv_folds lib n folds s [] None")
  obtain r2 t1 where b: "cv_folds lib n folds t [] None = (r2, t1)"
    by (cases "cv_folds lib n folds t [] None")
  from cv_folds_view[OF assms, of lib n folds "[]" None] a b
  have r: "r2 = r1" and st: "t1 = s1 \<or> s1 = s \<and> t1 = t" by auto
  show ?thesis
    using Inr sq a b r st
    by (cases r1) (auto simp: cv_body_def Let_def split: prod.splits)
qed

lemma cv_loop_view:
  assumes "t = s\<lparr>X := x, lengths := l\<rparr>"
  shows "fst (cv_loop lib t ns best) = fst (cv_loop lib s ns best) \<and>
         (snd (cv_loop lib t ns best) = snd (cv_loop lib s ns best) \<or>
          snd (cv_loop lib s ns best) = s \<and> snd (cv_loop lib t ns best) = t)"
  using assms
proof (induction ns arbitrary: s t best)
  case Nil
  then show ?case by simp
next
  case (Cons n rest)
  obtain r1 s1 where a: "cv_body lib s best n = (r1, s1)" by (cases "cv_body lib s best n")
  obtain r2 t1 where b: "cv_body lib t best n = (r2, t1)" by (cases "cv_body lib t best n")
  from cv_body_view[OF Cons.prems, of lib best n] a b
  have r: "r2 = r1" and st: "t1 = s1 \<or> s1 = s \<and> t1 = t" by auto
  show ?case
  proof (cases r1)
    case (Inl e)
    with a b r st show ?thesis by auto
  next
    case (Inr best')
    from st show ?thesis
    proof
      assume "t1 = s1"
      with a b r Inr show ?thesis by simp
    next
      assume u: "s1 = s \<and> t1 = t"
      from Cons.IH[OF Cons.prems, of best'] a b r Inr u show ?thesis by simp
    qed
  qed
qed

lemma SelectorCV_select_again:
  "SelectorCV_select lib (snd (SelectorCV_select lib s)) = SelectorCV_select lib s"
proof -
  let ?ns = "[min_n_components s .. max_n_components s]"
  obtain r s1 where a: "cv_loop lib s ?ns (NegInf, None) = (r, s1)"
    by (cases "cv_loop lib s ?ns (NegInf, None)")
  obtain x l where s1: "s1 = s\<lparr>X := x, lengths := l\<rparr>"
    using cv_loop_frame[of lib s ?ns "(NegInf, None)"] a by auto
  have first: "snd (SelectorCV_select lib s) = s1"
    using a by (cases r) (simp_all add: SelectorCV_select_def)
  obtain r2 s2 where b: "cv_loop lib s1 ?ns (NegInf, None) = (r2, s2)"
    by (cases "cv_loop lib s1 ?ns (NegInf, None)")
  from cv_loop_view[OF s1, of lib ?ns "(NegInf, None)"] a b
  have "r2 = r" and "s2 = s1" by auto
  then have "SelectorCV_select lib s1 = SelectorCV_select lib s"
    using a b s1 by (cases r) (simp_all add: SelectorCV_select_def)
  with first show ?thesis by simp
qed

subsection \<open>When select returns a value\<close>

lemma ModelSelector_init_evals:
  "ModelSelector_init [(''A'', [[[1], [2], [3]]])] [(''A'', ([[1], [2], [3]], [3]))]
     ''A'' 3 2 3 14 False = Inr one_word"
  "ModelSelector_init
     [(''A'', [[[1], [2], [3]]]), (''B'', [[[4]]]), (''C'', [[[5], [6], [7]]])]
     [(''A'', ([[1], [2], [3]], [3])), (''B'', ([[4]], [1])), (''C'', ([[5], [6], [7]], [3]))]
     ''A'' 1 2 3 14 False = Inr three_words"
  "ModelSelector_init [(''A'', [[[1], [2], [3]]])] [(''A'', ([[1], [2], [3]], [3]))]
     ''A'' 3 2 3 14 True = Inr loud_word"
  by (simp_all add: ModelSelector_init_def one_word_def three_words_def loud_word_def)

text \<open>Without a raising \<^verbatim>\<open>print\<close>, \<open>base_model\<close> returns.\<close>

lemma base_model_returns:
  assumes "verbose s \<longrightarrow> (\<forall>msg. py_print lib msg = None)"
  shows "\<exists>r. base_model lib s num_states = Inr r"
  using assms by (auto simp: base_model_def split: sum.splits option.splits)

text \<open>
  Claim C1, as amended. For a word present in both input mappings the constructor
  succeeds. When \<^verbatim>\<open>verbose\<close> is off, or \<^verbatim>\<open>print\<close> does not raise, each of the four
  strategies returns from \<open>select\<close> with a value (\<open>Inr\<close>), a model or \<^verbatim>\<open>None\<close>, and never
  with an exception; and whenever the search loop of a strategy raises, the value returned
  is that of \<open>base_model\<close> at \<open>n_constant\<close>.
\<close>

theorem select_never_raises:
  assumes "map_of all_word_sequences word = Some seqs"
      and "map_of all_word_Xl word = Some xl"
      and "verb \<longrightarrow> (\<forall>msg. py_print lib msg = None)"
  shows "\<exists>s. ModelSelector_init all_word_sequences all_word_Xl word n_const min_n max_n seed verb
              = Inr s
           \<and> (\<forall>strategy. \<exists>r s'. select strategy lib s = (Inr r, s'))
           \<and> (\<forall>e. bic_loop lib s [min_n..max_n] (PosInf, None) = Inl e
                 \<longrightarrow> select BIC lib s = (base_model lib s n_const, s))
           \<and> (\<forall>e. dic_loop lib s (map fst all_word_sequences) [min_n..max_n] (NegInf, None) = Inl e
                 \<longrightarrow> select DIC lib s = (base_model lib s n_const, s))
           \<and> (\<forall>e s'. cv_loop lib s [min_n..max_n] (NegInf, None) = (Inl e, s')
                 \<longrightarrow> (\<exists>x l. fst (select CV lib s)
                            = base_model lib (s\<lparr>X := x, lengths := l\<rparr>) n_const))"
proof -
  obtain x l where xl: "xl = (x, l)" by (cases xl)
  define s where "s = \<lparr> words = all_word_sequences, hwords = all_word_Xl, sequences = seqs,
                     X = x, lengths = l, this_word = word, n_constant = n_const,
                     min_n_components = min_n, max_n_components = max_n,
                     random_state = seed, verbose = verb,
                     all_word_Xlengths = all_word_Xl \<rparr>"
  have init: "ModelSelector_init all_word_sequences all_word_Xl word n_const min_n max_n seed verb
              = Inr s"
    using assms(1,2) xl by (simp add: ModelSelector_init_def s_def)
  have fields: "min_n_components s = min_n" "max_n_components s = max_n" "n_constant s = n_const"
    "words s = all_word_sequences" "verbose s = verb"
    by (simp_all add: s_def)
  have quiet: "\<exists>r. base_model lib (s\<lparr>X := x', lengths := l'\<rparr>) k = Inr r" for x' l' k
    by (rule base_model_returns) (use assms(3) fields in simp)
  have quiet0: "\<exists>r. base_model lib s k = Inr r" for k
    by (rule base_model_returns) (use assms(3) fields in simp)
  have all: "\<exists>r s'. select strategy lib s = (Inr r, s')" for strategy
  proof (cases strategy)
    case Constant
    with quiet0[of "n_constant s"] show ?thesis
      by (auto simp: SelectorConstant_select_def)
  next
    case BIC
    with quiet0[of "n_constant s"] show ?thesis
      by (auto simp: SelectorBIC_select_def split: sum.splits)
  next
    case DIC
    with quiet0[of "n_constant s"] show ?thesis
      by (auto simp: SelectorDIC_select_def Let_def split: sum.splits)
  next
    case CV
    obtain r s' where run: "cv_loop lib s [min_n_components s .. max_n_components s]
                              (NegInf, None) = (r, s')"
      by (cases "cv_loop lib s [min_n_components s .. max_n_components s] (NegInf, None)")
    obtain x' l' where s': "s' = s\<lparr>X := x', lengths := l'\<rparr>"
      using cv_loop_frame[of lib s "[min_n_components s .. max_n_components s]" "(NegInf, None)"]
        run by auto
    from quiet[where x' = x' and l' = l' and k = "n_constant s'"] s' obtain r' where
      "base_model lib s' (n_constant s') = Inr r'" by auto
    with CV run show ?thesis
      by (cases r) (simp_all add: SelectorCV_select_def)
  qed
  have bic: "select BIC lib s = (base_model lib s n_const, s)"
    if "bic_loop lib s [min_n..max_n] (PosInf, None) = Inl e" for e
    using that fields by (simp add: SelectorBIC_select_def)
  have dic: "select DIC lib s = (base_model lib s n_const, s)"
    if "dic_loop lib s (map fst all_word_sequences) [min_n..max_n] (NegInf, None) = Inl e" for e
    using that fields by (simp add: SelectorDIC_select_def)
  have cv: "\<exists>x l. fst (select CV lib s) = base_model lib (s\<lparr>X := x, lengths := l\<rparr>) n_const"
    if h: "cv_loop lib s [min_n..max_n] (NegInf, None) = (Inl e, s')" for e s'
  proof -
    obtain x' l' where s': "s' = s\<lparr>X := x', lengths := l'\<rparr>"
      using cv_loop_frame[of lib s "[min_n..max_n]" "(NegInf, None)"] h by auto
    then have "n_constant s' = n_const" using fields by simp
    with h fields have "fst (select CV lib s) = base_model lib s' n_const"
      by (simp add: SelectorCV_select_def)
    with s' show ?thesis by blast
  qed
  from init all bic dic cv show ?thesis by blast
qed

theorem select_never_raises_witness:
  "map_of [(''A'', [[[1], [2], [3 :: real]]])] ''A'' = Some [[[1], [2], [3]]]
   \<and> map_of [(''A'', ([[1], [2], [3 :: real]], [3 :: nat]))] ''A'' = Some ([[1], [2], [3]], [3])
   \<and> (\<forall>msg. py_print toy msg = None)
   \<and> ModelSelector_init [(''A'', [[[1], [2], [3]]])] [(''A'', ([[1], [2], [3]], [3]))]
         ''A'' 3 2 3 14 True = Inr loud_word
   \<and> (\<forall>strategy. \<exists>r s'. select strategy toy loud_word = (Inr r, s'))
   \<and> bic_loop toy loud_word [2..3] (PosInf, None) = Inl NameError
   \<and> select BIC toy loud_word = (base_model toy loud_word 3, loud_word)
   \<and> base_model toy loud_word 3 = Inr (Some (ToyModel 3 [[1], [2], [3]] [3]))
   \<and> cv_loop toy loud_word [2..3] (NegInf, None) = (Inl ValueError, loud_word)
   \<and> (\<exists>x l. fst (select CV toy loud_word)
               = base_model toy (loud_word\<lparr>X := x, lengths := l\<rparr>) 3)
   \<and> ModelSelector_init
         [(''A'', [[[1], [2], [3]]]), (''B'', [[[4]]]), (''C'', [[[5], [6], [7]]])]
         [(''A'', ([[1], [2], [3]], [3])), (''B'', ([[4]], [1])), (''C'', ([[5], [6], [7]], [3]))]
         ''A'' 1 2 3 14 False = Inr three_words
   \<and> dic_loop toy three_words [''A'', ''B'', ''C''] [2..3] (NegInf, None) = Inl ScoreError
   \<and> select DIC toy three_words = (base_model toy three_words 1, three_words)"
proof -
  have a: "map_of [(''A'', [[[1], [2], [3 :: real]]])] ''A'' = Some [[[1], [2], [3]]]"
    by simp
  have b: "map_of [(''A'', ([[1], [2], [3 :: real]], [3 :: nat]))] ''A''
           = Some ([[1], [2], [3]], [3])"
    by simp
  have a3: "map_of [(''A'', [[[1], [2], [3 :: real]]]), (''B'', [[[4]]]),
                    (''C'', [[[5], [6], [7]]])] ''A'' = Some [[[1], [2], [3]]]"
    by simp
  have b3: "map_of [(''A'', ([[1], [2], [3 :: real]], [3 :: nat])), (''B'', ([[4]], [1])),
                    (''C'', ([[5], [6], [7]], [3]))] ''A'' = Some ([[1], [2], [3]], [3])"
    by simp
  have pr: "\<forall>msg. py_print toy msg = None" by (simp add: toy_def)
  then have h: "True \<longrightarrow> (\<forall>msg. py_print toy msg = None)" by simp
  have h3: "False \<longrightarrow> (\<forall>msg. py_print toy msg = None)" by simp
  have bic: "bic_loop toy loud_word [2..3] (PosInf, None) = Inl NameError"
    by (simp add: loud_word_def one_word_def bic_body_def load_name_n_def base_model_def
          model_score_def toy_def toy_fit_def upto.simps)
  have bm: "base_model toy loud_word 3 = Inr (Some (ToyModel 3 [[1], [2], [3]] [3]))"
    by (simp add: loud_word_def one_word_def base_model_def toy_def toy_fit_def)
  have cv: "cv_loop toy loud_word [2..3] (NegInf, None) = (Inl ValueError, loud_word)"
    by (simp add: loud_word_def one_word_def cv_body_def cv_split_def KFold_def upto.simps)
  have dic: "dic_loop toy three_words [''A'', ''B'', ''C''] [2..3] (NegInf, None)
             = Inl ScoreError"
    by (simp add: three_words_def dic_body_def base_model_def model_score_def
          toy_def toy_fit_def upto.simps)
  from select_never_raises[OF a b h, where n_const = 3 and min_n = 2 and max_n = 3 and seed = 14]
  obtain s1 where i1: "ModelSelector_init [(''A'', [[[1], [2], [3]]])]
        [(''A'', ([[1], [2], [3]], [3]))] ''A'' 3 2 3 14 True = Inr s1"
    and all1: "\<forall>strategy. \<exists>r s'. select strategy toy s1 = (Inr r, s')"
    and bic1: "\<forall>e. bic_loop toy s1 [2..3] (PosInf, None) = Inl e
                 \<longrightarrow> select BIC toy s1 = (base_model toy s1 3, s1)"
    and cv1: "\<forall>e s'. cv_loop toy s1 [2..3] (NegInf, None) = (Inl e, s')
                 \<longrightarrow> (\<exists>x l. fst (select CV toy s1)
                            = base_model toy (s1\<lparr>X := x, lengths := l\<rparr>) 3)"
    by blast
  from i1[symmetric] ModelSelector_init_evals(3) have s1: "s1 = loud_word" by simp
  from all1 bic1 cv1 bic cv
  have one: "(\<forall>strategy. \<exists>r s'. select strategy toy loud_word = (Inr r, s'))
     \<and> select BIC toy loud_word = (base_model toy loud_word 3, loud_word)
     \<and> (\<exists>x l. fst (select CV toy loud_word)
               = base_model toy (loud_word\<lparr>X := x, lengths := l\<rparr>) 3)"
    unfolding s1 by blast
  from select_never_raises[OF a3 b3 h3, where n_const = 1 and min_n = 2 and max_n = 3 and seed = 14]
  obtain s3 where i3: "ModelSelector_init
        [(''A'', [[[1], [2], [3]]]), (''B'', [[[4]]]), (''C'', [[[5], [6], [7]]])]
        [(''A'', ([[1], [2], [3]], [3])), (''B'', ([[4]], [1])), (''C'', ([[5], [6], [7]], [3]))]
        ''A'' 1 2 3 14 False = Inr s3"
    and dic3: "\<forall>e. dic_loop toy s3
                    (map fst [(''A'', [[[1], [2], [3 :: real]]]), (''B'', [[[4]]]),
                              (''C'', [[[5], [6], [7]]])])
                    [2..3] (NegInf, None) = Inl e
                 \<longrightarrow> select DIC toy s3 = (base_model toy s3 1, s3)"
    by blast
  from i3[symmetric] ModelSelector_init_evals(2) have s3: "s3 = three_words" by simp
  have keys: "map fst [(''A'', [[[1], [2], [3 :: real]]]), (''B'', [[[4]]]),
                       (''C'', [[[5], [6], [7]]])] = [''A'', ''B'', ''C'']"
    by simp
  from dic3 dic
  have three: "select DIC toy three_words = (base_model toy three_words 1, three_words)"
    unfolding s3 keys by blast
  from a b pr one three bic bm cv dic ModelSelector_init_evals show ?thesis by blast
qed

text \<open>
  Claim C1 as stated fails. With \<^verbatim>\<open>verbose=True\<close> and a standard output that is closed,
  the 3-state fit on the three frames of the word succeeds, the \<^verbatim>\<open>print\<close> of line 42
  raises inside the \<^verbatim>\<open>try\<close>, and the \<^verbatim>\<open>print\<close> of line 46, inside the handler, raises
  out of \<^verbatim>\<open>base_model\<close>. Nothing encloses the calls of \<^verbatim>\<open>base_model\<close> on lines 61, 96, 130
  and 166, so each of the four strategies raises from \<open>select\<close>.
\<close>

theorem select_raises_counterexample:
  "ModelSelector_init [(''A'', [[[1], [2], [3]]])] [(''A'', ([[1], [2], [3]], [3]))]
         ''A'' 3 2 3 14 True = Inr loud_word
   \<and> py_print toy_closed_stdout (Model_created ''A'' 3) = Some OSError
   \<and> py_print toy_closed_stdout (Failure_on ''A'' 3) = Some OSError
   \<and> base_model toy_closed_stdout loud_word 3 = Inl OSError
   \<and> select Constant toy_closed_stdout loud_word = (Inl OSError, loud_word)
   \<and> select BIC toy_closed_stdout loud_word = (Inl OSError, loud_word)
   \<and> select DIC toy_closed_stdout loud_word = (Inl OSError, loud_word)
   \<and> select CV toy_closed_stdout loud_word = (Inl OSError, loud_word)"
proof -
  have bm: "base_model toy_closed_stdout loud_word k = Inl OSError" for k
    by (simp add: loud_word_def one_word_def base_model_def toy_closed_stdout_def toy_def
          split: sum.splits)
  have pr: "py_print toy_closed_stdout (Model_created ''A'' 3) = Some OSError"
    "py_print toy_closed_stdout (Failure_on ''A'' 3) = Some OSError"
    by (simp_all add: toy_closed_stdout_def)
  have c: "select Constant toy_closed_stdout loud_word = (Inl OSError, loud_word)"
    by (simp add: SelectorConstant_select_def bm)
  have rng: "[min_n_components loud_word .. max_n_components loud_word] = [2, 3]"
    by (simp add: loud_word_def one_word_def upto.simps)
  have nc: "n_constant loud_word = 3" by (simp add: loud_word_def one_word_def)
  have b: "select BIC toy_closed_stdout loud_word = (Inl OSError, loud_word)"
    by (simp add: SelectorBIC_select_def rng bic_body_def bm)
  have d: "select DIC toy_closed_stdout loud_word = (Inl OSError, loud_word)"
    by (simp add: SelectorDIC_select_def rng dic_body_def bm)
  have sp: "cv_split (sequences loud_word) = Inl ValueError"
    by (simp add: loud_word_def one_word_def cv_split_def KFold_def)
  have v: "select CV toy_closed_stdout loud_word = (Inl OSError, loud_word)"
    by (simp add: SelectorCV_select_def rng cv_body_def sp bm)
  from ModelSelector_init_evals(3) pr bm[of 3] c b d v show ?thesis by blast
qed

subsection \<open>SelectorBIC behaves as SelectorConstant\<close>

text \<open>The loop of SelectorBIC never gets past its first pass.\<close>

lemma bic_body_raises: "\<exists>e. bic_body lib s best n = Inl e"
  by (simp add: bic_body_def load_name_n_def Let_def split: sum.splits)

lemma bic_loop_raises: "ns \<noteq> [] \<Longrightarrow> \<exists>e. bic_loop lib s ns best = Inl e"
  using bic_body_raises[of lib s best "hd ns"] by (cases ns) auto

text \<open>
  Claim C3. With a non-empty search range \<open>SelectorBIC_select\<close> returns exactly
  \<open>base_model\<close> at \<open>n_constant\<close>, which is what \<open>SelectorConstant_select\<close>
  returns. The first pass of the loop always raises: what \<open>base_model\<close> raises if it
  does, AttributeError after a failed fit, the scorer's exception when scoring the fitted
  model fails, and NameError for the name \<^verbatim>\<open>n\<close> after a successful fit and score.
\<close>

theorem SelectorBIC_is_SelectorConstant:
  assumes "min_n_components s \<le> max_n_components s"
  shows "SelectorBIC_select lib s = SelectorConstant_select lib s
     \<and> SelectorBIC_select lib s = base_model lib s (n_constant s)
     \<and> bic_body lib s (PosInf, None) (min_n_components s) =
        (case base_model lib s (min_n_components s) of
           Inl e \<Rightarrow> Inl e
         | Inr None \<Rightarrow> Inl AttributeError
         | Inr (Some m) \<Rightarrow> (case hmm_score lib m (X s) (lengths s) of
                              Inl e \<Rightarrow> Inl e
                            | Inr logL \<Rightarrow> Inl NameError))"
proof -
  from assms have "[min_n_components s .. max_n_components s] \<noteq> []"
    by (rule upto_nonempty)
  then obtain e where
    "bic_loop lib s [min_n_components s .. max_n_components s] (PosInf, None) = Inl e"
    using bic_loop_raises by blast
  then have "SelectorBIC_select lib s = base_model lib s (n_constant s)"
    by (simp add: SelectorBIC_select_def)
  moreover have "bic_body lib s (PosInf, None) (min_n_components s) =
        (case base_model lib s (min_n_components s) of
           Inl e \<Rightarrow> Inl e
         | Inr None \<Rightarrow> Inl AttributeError
         | Inr (Some m) \<Rightarrow> (case hmm_score lib m (X s) (lengths s) of
                              Inl e \<Rightarrow> Inl e
                            | Inr logL \<Rightarrow> Inl NameError))"
    by (simp add: bic_body_def load_name_n_def model_score_def Let_def
             split: sum.splits option.splits)
  ultimately show ?thesis by (simp add: SelectorConstant_select_def)
qed

theorem SelectorBIC_is_SelectorConstant_witness:
  "min_n_components one_word \<le> max_n_components one_word
   \<and> SelectorBIC_select toy one_word = SelectorConstant_select toy one_word
   \<and> SelectorBIC_select toy one_word = Inr (Some (ToyModel 3 [[1], [2], [3]] [3]))
   \<and> bic_body toy one_word (PosInf, None) 2 = Inl NameError"
proof -
  have h: "min_n_components one_word \<le> max_n_components one_word"
    by (simp add: one_word_def)
  have m: "min_n_components one_word = 2" by (simp add: one_word_def)
  from SelectorBIC_is_SelectorConstant[OF h, of toy] h m show ?thesis
    by (simp add: one_word_def SelectorConstant_select_def base_model_def toy_def toy_fit_def)
qed

subsection \<open>What SelectorCV leaves in the selector\<close>

text \<open>What SelectorCV leaves in \<^verbatim>\<open>X\<close> and \<^verbatim>\<open>lengths\<close> is the training split of a fold.\<close>

lemma cv_fold_split:
  "snd (cv_fold lib n s acc idx) = s \<or>
   (\<exists>x l. combine_sequences (fst idx) (sequences s) = Inr (x, l) \<and>
          snd (cv_fold lib n s acc idx) = s\<lparr>X := x, lengths := l\<rparr>)"
proof (cases "combine_sequences (fst idx) (sequences s)")
  case (Inl e)
  then show ?thesis by (simp add: cv_fold_def)
next
  case (Inr v)
  obtain x' l' where v: "v = (x', l')" by (cases v)
  with Inr have "snd (cv_fold lib n s acc idx) = s\<lparr>X := x', lengths := l'\<rparr>"
    by (simp add: cv_fold_def Let_def split: sum.splits prod.splits)
  with Inr v show ?thesis by blast
qed

lemma cv_folds_split:
  "snd (cv_folds lib n folds s acc m) = s \<or>
   (\<exists>idx x l. idx \<in> set folds \<and> combine_sequences (fst idx) (sequences s) = Inr (x, l) \<and>
          snd (cv_folds lib n folds s acc m) = s\<lparr>X := x, lengths := l\<rparr>)"
proof (induction folds arbitrary: s acc m)
  case Nil
  then show ?case by simp
next
  case (Cons idx rest)
  obtain r s1 where step: "cv_fold lib n s acc idx = (r, s1)" by (cases "cv_fold lib n s acc idx")
  from cv_fold_split[of lib n s acc idx] step
  have s1: "s1 = s \<or> (\<exists>x l. combine_sequences (fst idx) (sequences s) = Inr (x, l) \<and>
                          s1 = s\<lparr>X := x, lengths := l\<rparr>)" by simp
  then have sq: "sequences s1 = sequences s" by auto
  show ?case
  proof (cases r)
    case (Inl e)
    with step have fin: "snd (cv_folds lib n (idx # rest) s acc m) = s1" by simp
    from s1 show ?thesis
    proof
      assume "s1 = s"
      with fin show ?thesis by simp
    next
      assume "\<exists>x l. combine_sequences (fst idx) (sequences s) = Inr (x, l) \<and>
                    s1 = s\<lparr>X := x, lengths := l\<rparr>"
      then obtain x l where "combine_sequences (fst idx) (sequences s) = Inr (x, l)"
        "s1 = s\<lparr>X := x, lengths := l\<rparr>" by blast
      with fin have "idx \<in> set (idx # rest) \<and>
          combine_sequences (fst idx) (sequences s) = Inr (x, l) \<and>
          snd (cv_folds lib n (idx # rest) s acc m) = s\<lparr>X := x, lengths := l\<rparr>" by simp
      then show ?thesis by blast
    qed
  next
    case (Inr v)
    obtain acc' m' where v: "v = (acc', m')" by (cases v)
    with step Inr have eq: "cv_folds lib n (idx # rest) s acc m = cv_folds lib n rest s1 acc' m'"
      by simp
    from Cons.IH[of s1 acc' m'] show ?thesis
    proof
      assume "snd (cv_folds lib n rest s1 acc' m') = s1"
      with eq have fin: "snd (cv_folds lib n (idx # rest) s acc m) = s1" by simp
      from s1 show ?thesis
      proof
        assume "s1 = s"
        with fin show ?thesis by simp
      next
        assume "\<exists>x l. combine_sequences (fst idx) (sequences s) = Inr (x, l) \<and>
                      s1 = s\<lparr>X := x, lengths := l\<rparr>"
        then obtain x l where "combine_sequences (fst idx) (sequences s) = Inr (x, l)"
          "s1 = s\<lparr>X := x, lengths := l\<rparr>" by blast
        with fin have "idx \<in> set (idx # rest) \<and>
            combine_sequences (fst idx) (sequences s) = Inr (x, l) \<and>
            snd (cv_folds lib n (idx # rest) s acc m) = s\<lparr>X := x, lengths := l\<rparr>" by simp
        then show ?thesis by blast
      qed
    next
      assume "\<exists>idx x l. idx \<in> set rest \<and>
                combine_sequences (fst idx) (sequences s1) = Inr (x, l) \<and>
                snd (cv_folds lib n rest s1 acc' m') = s1\<lparr>X := x, lengths := l\<rparr>"
      then obtain i x l where i: "i \<in> set rest"
        "combine_sequences (fst i) (sequences s1) = Inr (x, l)"
        "snd (cv_folds lib n rest s1 acc' m') = s1\<lparr>X := x, lengths := l\<rparr>" by blast
      have "s1\<lparr>X := x, lengths := l\<rparr> = s\<lparr>X := x, lengths := l\<rparr>" using s1 by auto
      with i eq sq have "i \<in> set (idx # rest) \<and>
          combine_sequences (fst i) (sequences s) = Inr (x, l) \<and>
          snd (cv_folds lib n (idx # rest) s acc m) = s\<lparr>X := x, lengths := l\<rparr>" by simp
      then show ?thesis by blast
    qed
  qed
qed

lemma cv_body_split:
  "snd (cv_body lib s best n) = s \<or>
   (\<exists>folds idx x l. cv_split (sequences s) = Inr folds \<and> idx \<in> set folds \<and>
          combine_sequences (fst idx) (sequences s) = Inr (x, l) \<and>
          snd (cv_body lib s best n) = s\<lparr>X := x, lengths := l\<rparr>)"
proof (cases "cv_split (sequences s)")
  case (Inl e)
  then show ?thesis by (simp add: cv_body_def)
next
  case (Inr folds)
  then have "snd (cv_body lib s best n) = snd (cv_folds lib n folds s [] None)"
    by (auto simp: cv_body_def Let_def split: sum.splits prod.splits)
  with cv_folds_split[of lib n folds s "[]" None] Inr show ?thesis by auto
qed

lemma cv_loop_split:
  "snd (cv_loop lib s ns best) = s \<or>
   (\<exists>folds idx x l. cv_split (sequences s) = Inr folds \<and> idx \<in> set folds \<and>
          combine_sequences (fst idx) (sequences s) = Inr (x, l) \<and>
          snd (cv_loop lib s ns best) = s\<lparr>X := x, lengths := l\<rparr>)"
proof (induction ns arbitrary: s best)
  case Nil
  then show ?case by simp
next
  case (Cons n rest)
  obtain r s1 where step: "cv_body lib s best n = (r, s1)" by (cases "cv_body lib s best n")
  from cv_body_split[of lib s best n] step
  have s1: "s1 = s \<or> (\<exists>folds idx x l. cv_split (sequences s) = Inr folds \<and> idx \<in> set folds \<and>
          combine_sequences (fst idx) (sequences s) = Inr (x, l) \<and>
          s1 = s\<lparr>X := x, lengths := l\<rparr>)" by simp
  then have sq: "sequences s1 = sequences s" by auto
  show ?case
  proof (cases r)
    case (Inl e)
    with step have fin: "snd (cv_loop lib s (n # rest) best) = s1" by simp
    from s1 fin show ?thesis by metis
  next
    case (Inr best')
    with step have eq: "cv_loop lib s (n # rest) best = cv_loop lib s1 rest best'" by simp
    from Cons.IH[of s1 best'] show ?thesis
    proof
      assume "snd (cv_loop lib s1 rest best') = s1"
      with eq have fin: "snd (cv_loop lib s (n # rest) best) = s1" by simp
      from s1 fin show ?thesis by metis
    next
      assume "\<exists>folds idx x l. cv_split (sequences s1) = Inr folds \<and> idx \<in> set folds \<and>
          combine_sequences (fst idx) (sequences s1) = Inr (x, l) \<and>
          snd (cv_loop lib s1 rest best') = s1\<lparr>X := x, lengths := l\<rparr>"
      then obtain folds i x l where i: "cv_split (sequences s1) = Inr folds" "i \<in> set folds"
        "combine_sequences (fst i) (sequences s1) = Inr (x, l)"
        "snd (cv_loop lib s1 rest best') = s1\<lparr>X := x, lengths := l\<rparr>" by blast
      have "s1\<lparr>X := x, lengths := l\<rparr> = s\<lparr>X := x, lengths := l\<rparr>" using s1 by auto
      with i eq sq have "cv_split (sequences s) = Inr folds \<and> i \<in> set folds \<and>
          combine_sequences (fst i) (sequences s) = Inr (x, l) \<and>
          snd (cv_loop lib s (n # rest) best) = s\<lparr>X := x, lengths := l\<rparr>" by simp
      then show ?thesis by blast
    qed
  qed
qed

lemma SelectorCV_select_split:
  "snd (SelectorCV_select lib s) = s \<or>
   (\<exists>folds idx x l. cv_split (sequences s) = Inr folds \<and> idx \<in> set folds \<and>
          combine_sequences (fst idx) (sequences s) = Inr (x, l) \<and>
          snd (SelectorCV_select lib s) = s\<lparr>X := x, lengths := l\<rparr>)"
proof -
  have "snd (SelectorCV_select lib s) =
        snd (cv_loop lib s [min_n_components s .. max_n_components s] (NegInf, None))"
    by (auto simp: SelectorCV_select_def split: prod.splits sum.splits)
  with cv_loop_split[of lib s "[min_n_components s .. max_n_components s]" "(NegInf, None)"]
  show ?thesis by simp
qed

text \<open>
  Claim C8, as amended. \<open>select\<close> of SelectorConstant, SelectorBIC and SelectorDIC leaves
  the selector as it was. \<open>select\<close> of SelectorCV changes no field but \<^verbatim>\<open>X\<close> and
  \<^verbatim>\<open>lengths\<close>, which it leaves either untouched or holding the training split of one of
  the folds. For every strategy a second \<open>select\<close> on the selector the first one left
  returns the same result and leaves the same selector.
\<close>

theorem select_state_and_repeat:
  "snd (select Constant lib s) = s \<and> snd (select BIC lib s) = s \<and> snd (select DIC lib s) = s
   \<and> (snd (select CV lib s) = s \<or>
      (\<exists>folds idx x l. cv_split (sequences s) = Inr folds \<and> idx \<in> set folds \<and>
          combine_sequences (fst idx) (sequences s) = Inr (x, l) \<and>
          snd (select CV lib s) = s\<lparr>X := x, lengths := l\<rparr>))
   \<and> select strategy lib (snd (select strategy lib s)) = select strategy lib s"
proof -
  have "select strategy lib (snd (select strategy lib s)) = select strategy lib s"
    by (cases strategy) (simp_all add: SelectorCV_select_again)
  with SelectorCV_select_split[of lib s] show ?thesis by simp
qed

theorem select_state_and_repeat_witness:
  "snd (select CV toy three_pairs) = three_pairs\<lparr>X := [[1], [2], [3], [4]], lengths := [2, 2]\<rparr>
   \<and> select CV toy (snd (select CV toy three_pairs)) = select CV toy three_pairs
   \<and> fst (select CV toy (snd (select CV toy three_pairs)))
       = Inr (Some (ToyModel 2 [[1], [2], [3], [4]] [2, 2]))"
proof -
  have run: "select CV toy three_pairs =
      (Inr (Some (ToyModel 2 [[1], [2], [3], [4]] [2, 2])),
       three_pairs\<lparr>X := [[1], [2], [3], [4]], lengths := [2, 2]\<rparr>)"
    by (simp add: three_pairs_def SelectorCV_select_def cv_body_def cv_split_def KFold_def
          KFold_split_def fold_sizes_def cv_fold_def combine_sequences_def base_model_def
          model_score_def toy_def toy_fit_def np_mean_def exact_mean_def upto.simps upt_rec)
  from select_state_and_repeat[of toy three_pairs CV] run show ?thesis by simp
qed

text \<open>
  Claim C8 as stated fails: after \<open>select\<close> of SelectorCV on three sequences of two frames
  the field \<^verbatim>\<open>X\<close> no longer holds the six frames of the word.
\<close>

theorem SelectorCV_changes_X_counterexample:
  "X three_pairs = [[1], [2], [3], [4], [5], [6]]
   \<and> X (snd (select CV toy three_pairs)) = [[1], [2], [3], [4]]
   \<and> lengths three_pairs = [2, 2, 2]
   \<and> lengths (snd (select CV toy three_pairs)) = [2, 2]"
  by (simp add: three_pairs_def SelectorCV_select_def cv_body_def cv_split_def KFold_def
        KFold_split_def fold_sizes_def cv_fold_def combine_sequences_def base_model_def
        model_score_def toy_def toy_fit_def np_mean_def exact_mean_def upto.simps upt_rec)

subsection \<open>SelectorDIC: one failing score ends the search\<close>

text \<open>A raising pass ends its loop, in SelectorDIC.\<close>

lemma dic_scores_raises:
  assumes "word \<in> set ws" and "word \<noteq> this_word s"
      and "map_of (all_word_Xlengths s) word = Some (wx, wl)"
      and "model_score lib hmm_model wx wl = Inl e"
  shows "\<exists>e'. dic_scores lib s hmm_model ws scores = Inl e'"
  using assms(1)
proof (induction ws arbitrary: scores)
  case Nil
  then show ?case by simp
next
  case (Cons w rest)
  show ?case
  proof (cases "w = word")
    case True
    with assms(2-4) show ?thesis by simp
  next
    case False
    with Cons.prems have "word \<in> set rest" by simp
    from Cons.IH[OF this] show ?thesis
      by (auto split: option.splits sum.splits prod.splits)
  qed
qed

lemma dic_loop_raises:
  assumes "n \<in> set ns" and "dic_body lib s ws best0 n = Inl e"
  shows "\<exists>e'. dic_loop lib s ws ns best = Inl e'"
  using assms(1)
proof (induction ns arbitrary: best)
  case Nil
  then show ?case by simp
next
  case (Cons k rest)
  have indep: "\<exists>e'. dic_body lib s ws b n = Inl e'" for b
    using assms(2) by (auto simp: dic_body_def Let_def split: sum.splits if_splits)
  show ?case
  proof (cases "k = n")
    case True
    with indep[of best] show ?thesis by auto
  next
    case False
    with Cons.prems have "n \<in> set rest" by simp
    from Cons.IH[OF this] show ?thesis by (auto split: sum.splits)
  qed
qed

text \<open>
  Claim C6, as amended. When scoring a fitted candidate of the search range against one
  other word of the corpus fails, the whole search is given up: the other words and the
  other candidates no longer count, and \<open>select\<close> returns \<open>base_model\<close> at
  \<open>n_constant\<close>.
\<close>

theorem SelectorDIC_score_failure_aborts:
  assumes "min_n_components s \<le> n" and "n \<le> max_n_components s"
      and "word \<in> set (map fst (words s))" and "word \<noteq> this_word s"
      and "map_of (all_word_Xlengths s) word = Some (wx, wl)"
      and "base_model lib s n = Inr (Some m)"
      and "hmm_score lib m wx wl = Inl e"
  shows "SelectorDIC_select lib s = base_model lib s (n_constant s)"
proof -
  let ?ws = "map fst (words s)"
  have "model_score lib (Some m) wx wl = Inl e"
    using assms(7) by (simp add: model_score_def)
  from dic_scores_raises[OF assms(3) assms(4) assms(5) this]
  obtain e' where "dic_scores lib s (Some m) ?ws [] = Inl e'" by blast
  then have body: "dic_body lib s ?ws (NegInf, None) n = Inl e'"
    using assms(6) by (simp add: dic_body_def)
  have "n \<in> set [min_n_components s .. max_n_components s]"
    using assms(1,2) by simp
  from dic_loop_raises[OF this body]
  obtain e'' where
    "dic_loop lib s ?ws [min_n_components s .. max_n_components s] (NegInf, None) = Inl e''"
    by blast
  then show ?thesis by (simp add: SelectorDIC_select_def)
qed

theorem SelectorDIC_score_failure_aborts_witness:
  "min_n_components three_words \<le> 2 \<and> 2 \<le> max_n_components three_words
   \<and> ''B'' \<in> set (map fst (words three_words)) \<and> ''B'' \<noteq> this_word three_words
   \<and> map_of (all_word_Xlengths three_words) ''B'' = Some ([[4]], [1])
   \<and> base_model toy three_words 2 = Inr (Some (ToyModel 2 [[1], [2], [3]] [3]))
   \<and> hmm_score toy (ToyModel 2 [[1], [2], [3]] [3]) [[4]] [1] = Inl ScoreError
   \<and> SelectorDIC_select toy three_words = Inr (Some (ToyModel 1 [[1], [2], [3]] [3]))"
proof -
  have h1: "min_n_components three_words \<le> 2" and h2: "2 \<le> max_n_components three_words"
    and h3: "''B'' \<in> set (map fst (words three_words))"
    and h4: "''B'' \<noteq> this_word three_words"
    and h5: "map_of (all_word_Xlengths three_words) ''B'' = Some ([[4]], [1])"
    by (simp_all add: three_words_def)
  have h6: "base_model toy three_words 2 = Inr (Some (ToyModel 2 [[1], [2], [3]] [3]))"
    by (simp add: three_words_def base_model_def toy_def toy_fit_def)
  have h7: "hmm_score toy (ToyModel 2 [[1], [2], [3]] [3]) [[4]] [1] = Inl ScoreError"
    by (simp add: toy_def)
  have fallback: "base_model toy three_words (n_constant three_words)
                  = Inr (Some (ToyModel 1 [[1], [2], [3]] [3]))"
    by (simp add: three_words_def base_model_def toy_def toy_fit_def)
  from SelectorDIC_score_failure_aborts[OF h1 h2 h3 h4 h5 h6 h7] fallback
  have "SelectorDIC_select toy three_words = Inr (Some (ToyModel 1 [[1], [2], [3]] [3]))"
    by simp
  with h1 h2 h3 h4 h5 h6 h7 show ?thesis by blast
qed

text \<open>
  Claim C6 as stated fails. In the corpus A, B, C the 2-state model of A cannot be scored
  on B. The inner loop stops there with the exception, although C can be scored, so no mean
  of the other words is formed; and the search stops too, although the 3-state candidate
  was never tried: the result is the 1-state model of the constant fallback, which is no
  candidate of the range 2 to 3.
\<close>

theorem SelectorDIC_score_failure_counterexample:
  "hmm_score toy (ToyModel 2 [[1], [2], [3]] [3]) [[4]] [1] = Inl ScoreError
   \<and> hmm_score toy (ToyModel 2 [[1], [2], [3]] [3]) [[5], [6], [7]] [3] = Inr (Finite (- 6))
   \<and> dic_scores toy three_words (Some (ToyModel 2 [[1], [2], [3]] [3])) [''A'', ''B'', ''C''] []
       = Inl ScoreError
   \<and> dic_scores toy three_words (Some (ToyModel 2 [[1], [2], [3]] [3])) [''A'', ''C''] []
       = Inr [Finite (- 6)]
   \<and> SelectorDIC_select toy three_words = Inr (Some (ToyModel 1 [[1], [2], [3]] [3]))"
  by (simp add: three_words_def SelectorDIC_select_def dic_body_def base_model_def
        model_score_def toy_def toy_fit_def upto.simps)

subsection \<open>SelectorCV: one failing fold ends the search\<close>







subsection \<open>SelectorCV: the model of a completed search\<close>

text \<open>The model a completed fold loop hands on is the one of its last fold.\<close>

lemma pf_less_irrefl: "\<not> pf_less a a"
  by (cases a) simp_all

lemma pf_less_trans: "pf_less a b \<Longrightarrow> pf_less b c \<Longrightarrow> pf_less a c"
  by (cases a; cases b; cases c) simp_all

lemma cv_fold_done:
  assumes "cv_fold lib n s acc idx = (Inr (acc', m'), s')"
  shows "\<exists>x l. combine_sequences (fst idx) (sequences s) = Inr (x, l) \<and>
               s' = s\<lparr>X := x, lengths := l\<rparr> \<and> base_model lib s' n = Inr m'"
  using assms
  by (auto simp: cv_fold_def Let_def split: sum.splits prod.splits)

lemma cv_folds_done:
  assumes "cv_folds lib n folds s acc m = (Inr (acc', m'), s')" and "folds \<noteq> []"
  shows "\<exists>x l. combine_sequences (fst (last folds)) (sequences s) = Inr (x, l) \<and>
               s' = s\<lparr>X := x, lengths := l\<rparr> \<and> base_model lib s' n = Inr m'"
  using assms
proof (induction folds arbitrary: s acc m)
  case Nil
  then show ?case by simp
next
  case (Cons idx rest)
  obtain r s1 where step: "cv_fold lib n s acc idx = (r, s1)" by (cases "cv_fold lib n s acc idx")
  from Cons.prems(1) step obtain acc1 m1 where r: "r = Inr (acc1, m1)"
    and cont: "cv_folds lib n rest s1 acc1 m1 = (Inr (acc', m'), s')"
    by (cases r) (auto split: prod.splits)
  from cv_fold_done[of lib n s acc idx acc1 m1 s1] step r
  obtain x1 l1 where one: "combine_sequences (fst idx) (sequences s) = Inr (x1, l1)"
    "s1 = s\<lparr>X := x1, lengths := l1\<rparr>" "base_model lib s1 n = Inr m1" by auto
  show ?case
  proof (cases "rest = []")
    case True
    with cont have "acc1 = acc'" "m1 = m'" "s1 = s'" by simp_all
    with one have "combine_sequences (fst idx) (sequences s) = Inr (x1, l1) \<and>
        s' = s\<lparr>X := x1, lengths := l1\<rparr> \<and> base_model lib s' n = Inr m'" by blast
    with True show ?thesis by auto
  next
    case False
    from Cons.IH[OF cont False] obtain x l where
      "combine_sequences (fst (last rest)) (sequences s1) = Inr (x, l)"
      "s' = s1\<lparr>X := x, lengths := l\<rparr>" "base_model lib s' n = Inr m'" by blast
    with one(2) False show ?thesis by simp
  qed
qed

lemma cv_body_done:
  assumes sp: "cv_split (sequences s0) = Inr folds"
      and t: "t = s0\<lparr>X := x, lengths := l\<rparr>"
      and step: "cv_body lib t best n = (Inr best', t')"
  shows "\<exists>arr hm. fst (cv_folds lib n folds s0 [] None) = Inr (arr, hm) \<and>
           (\<exists>x' l'. t' = s0\<lparr>X := x', lengths := l'\<rparr>) \<and>
           (if pf_less (fst best) (np_mean lib arr)
            then best' = (np_mean lib arr, hm) \<and> folds \<noteq> [] \<and>
                 (\<exists>xl ll. combine_sequences (fst (last folds)) (sequences s0) = Inr (xl, ll) \<and>
                     base_model lib (s0\<lparr>X := xl, lengths := ll\<rparr>) n = Inr hm)
            else best' = best)"
proof -
  have spt: "cv_split (sequences t) = Inr folds" using sp t by simp
  obtain r t1 where run: "cv_folds lib n folds t [] None = (r, t1)"
    by (cases "cv_folds lib n folds t [] None")
  from step spt run obtain arr hm where r: "r = Inr (arr, hm)"
    by (cases r) (auto simp: cv_body_def)
  from step spt run r have t': "t' = t1"
    and b': "best' = (if pf_less (fst best) (np_mean lib arr) then (np_mean lib arr, hm) else best)"
    by (auto simp: cv_body_def Let_def split: if_splits)
  have pure: "fst (cv_folds lib n folds s0 [] None) = Inr (arr, hm)"
    using cv_folds_view[OF t, of lib n folds "[]" None] run r by simp
  obtain x' l' where "t1 = t\<lparr>X := x', lengths := l'\<rparr>"
    using cv_folds_frame[of lib n folds t "[]" None] run by auto
  then have fr: "t' = s0\<lparr>X := x', lengths := l'\<rparr>" using t t' by simp
  have win: "folds \<noteq> [] \<and>
       (\<exists>xl ll. combine_sequences (fst (last folds)) (sequences s0) = Inr (xl, ll) \<and>
            base_model lib (s0\<lparr>X := xl, lengths := ll\<rparr>) n = Inr hm)"
    if less: "pf_less (fst best) (np_mean lib arr)"
  proof -
    have ne: "folds \<noteq> []"
    proof
      assume "folds = []"
      with run r have "arr = []" by simp
      with less show False by (cases "fst best") (simp_all add: np_mean_def)
    qed
    from cv_folds_done[of lib n folds t "[]" None arr hm t1] run r ne
    obtain xl ll where "combine_sequences (fst (last folds)) (sequences t) = Inr (xl, ll)"
      "t1 = t\<lparr>X := xl, lengths := ll\<rparr>" "base_model lib t1 n = Inr hm" by auto
    with t have "combine_sequences (fst (last folds)) (sequences s0) = Inr (xl, ll) \<and>
            base_model lib (s0\<lparr>X := xl, lengths := ll\<rparr>) n = Inr hm" by simp
    with ne show ?thesis by blast
  qed
  from pure fr b' win show ?thesis by auto
qed


lemma cv_loop_done:
  assumes sp: "cv_split (sequences s0) = Inr folds"
      and t: "t = s0\<lparr>X := x, lengths := l\<rparr>"
      and run: "cv_loop lib t ns best = (Inr bm, t')"
      and low: "fst best = NegInf \<or> pf_less NegInf (fst best)"
      and top: "\<forall>k arr' m'. k \<in> D \<and> fst (cv_folds lib k folds s0 [] None) = Inr (arr', m')
                  \<longrightarrow> \<not> pf_less (fst best) (np_mean lib arr')"
      and won: "snd best = None \<or>
                (\<exists>n arr xl ll. n \<in> D \<and> fst (cv_folds lib n folds s0 [] None) = Inr (arr, snd best) \<and>
                    fst best = np_mean lib arr \<and> pf_less NegInf (np_mean lib arr) \<and> folds \<noteq> [] \<and>
                    combine_sequences (fst (last folds)) (sequences s0) = Inr (xl, ll) \<and>
                    base_model lib (s0\<lparr>X := xl, lengths := ll\<rparr>) n = Inr (snd best))"
  shows "\<exists>sc. (\<forall>k arr' m'. k \<in> D \<union> set ns \<and>
                    fst (cv_folds lib k folds s0 [] None) = Inr (arr', m')
                  \<longrightarrow> \<not> pf_less sc (np_mean lib arr')) \<and>
              (bm = None \<or>
                (\<exists>n arr xl ll. n \<in> D \<union> set ns \<and>
                    fst (cv_folds lib n folds s0 [] None) = Inr (arr, bm) \<and>
                    sc = np_mean lib arr \<and> pf_less NegInf (np_mean lib arr) \<and> folds \<noteq> [] \<and>
                    combine_sequences (fst (last folds)) (sequences s0) = Inr (xl, ll) \<and>
                    base_model lib (s0\<lparr>X := xl, lengths := ll\<rparr>) n = Inr bm))"
  using t run low top won
proof (induction ns arbitrary: t x l best D)
  case Nil
  then have "bm = snd best" by simp
  with Nil.prems(4,5) show ?case
    by (intro exI[of _ "fst best"]) auto
next
  case (Cons n rest)
  obtain r t1 where step: "cv_body lib t best n = (r, t1)" by (cases "cv_body lib t best n")
  from Cons.prems(2) step obtain best' where r: "r = Inr best'"
    and cont: "cv_loop lib t1 rest best' = (Inr bm, t')"
    by (cases r) auto
  from cv_body_done[OF sp Cons.prems(1), of lib best n best' t1] step r
  obtain arr hm x' l' where pure: "fst (cv_folds lib n folds s0 [] None) = Inr (arr, hm)"
    and fr: "t1 = s0\<lparr>X := x', lengths := l'\<rparr>"
    and upd: "if pf_less (fst best) (np_mean lib arr)
            then best' = (np_mean lib arr, hm) \<and> folds \<noteq> [] \<and>
                 (\<exists>xl ll. combine_sequences (fst (last folds)) (sequences s0) = Inr (xl, ll) \<and>
                     base_model lib (s0\<lparr>X := xl, lengths := ll\<rparr>) n = Inr hm)
            else best' = best"
    by auto
  have low': "fst best' = NegInf \<or> pf_less NegInf (fst best')"
  proof (cases "pf_less (fst best) (np_mean lib arr)")
    case True
    with upd have "fst best' = np_mean lib arr" by simp
    moreover from True Cons.prems(3) have "pf_less NegInf (np_mean lib arr)"
      by (auto intro: pf_less_trans)
    ultimately show ?thesis by simp
  next
    case False
    with upd Cons.prems(3) show ?thesis by simp
  qed
  have top': "\<forall>k arr' m'. k \<in> insert n D \<and>
                 fst (cv_folds lib k folds s0 [] None) = Inr (arr', m')
                  \<longrightarrow> \<not> pf_less (fst best') (np_mean lib arr')"
  proof (intro allI impI)
    fix k arr' m'
    assume h: "k \<in> insert n D \<and> fst (cv_folds lib k folds s0 [] None) = Inr (arr', m')"
    show "\<not> pf_less (fst best') (np_mean lib arr')"
    proof (cases "pf_less (fst best) (np_mean lib arr)")
      case True
      with upd have b: "fst best' = np_mean lib arr" by simp
      show ?thesis
      proof (cases "k = n")
        case True
        with h pure have "arr' = arr" by simp
        with b show ?thesis by (simp add: pf_less_irrefl)
      next
        case False
        with h have "k \<in> D" by simp
        with h Cons.prems(4) have old: "\<not> pf_less (fst best) (np_mean lib arr')" by blast
        show ?thesis
        proof
          assume "pf_less (fst best') (np_mean lib arr')"
          with b \<open>pf_less (fst best) (np_mean lib arr)\<close> have "pf_less (fst best) (np_mean lib arr')"
            by (auto intro: pf_less_trans)
          with old show False by simp
        qed
      qed
    next
      case False
      with upd have b: "best' = best" by simp
      show ?thesis
      proof (cases "k = n")
        case True
        with h pure have "arr' = arr" by simp
        with b False show ?thesis by simp
      next
        case False
        with h have "k \<in> D" by simp
        with h Cons.prems(4) b show ?thesis by blast
      qed
    qed
  qed
  have won': "snd best' = None \<or>
                (\<exists>k arr xl ll. k \<in> insert n D \<and>
                    fst (cv_folds lib k folds s0 [] None) = Inr (arr, snd best') \<and>
                    fst best' = np_mean lib arr \<and> pf_less NegInf (np_mean lib arr) \<and> folds \<noteq> [] \<and>
                    combine_sequences (fst (last folds)) (sequences s0) = Inr (xl, ll) \<and>
                    base_model lib (s0\<lparr>X := xl, lengths := ll\<rparr>) k = Inr (snd best'))"
  proof (cases "pf_less (fst best) (np_mean lib arr)")
    case True
    with upd obtain xl ll where b: "best' = (np_mean lib arr, hm)" and ne: "folds \<noteq> []"
      and last: "combine_sequences (fst (last folds)) (sequences s0) = Inr (xl, ll)"
      and hm: "base_model lib (s0\<lparr>X := xl, lengths := ll\<rparr>) n = Inr hm" by auto
    from True Cons.prems(3) have "pf_less NegInf (np_mean lib arr)"
      by (auto intro: pf_less_trans)
    with b ne last hm pure have "n \<in> insert n D \<and>
                    fst (cv_folds lib n folds s0 [] None) = Inr (arr, snd best') \<and>
                    fst best' = np_mean lib arr \<and> pf_less NegInf (np_mean lib arr) \<and> folds \<noteq> [] \<and>
                    combine_sequences (fst (last folds)) (sequences s0) = Inr (xl, ll) \<and>
                    base_model lib (s0\<lparr>X := xl, lengths := ll\<rparr>) n = Inr (snd best')" by simp
    then show ?thesis by blast
  next
    case False
    with upd have b: "best' = best" by simp
    from Cons.prems(5) show ?thesis
    proof
      assume "snd best = None"
      with b show ?thesis by simp
    next
      assume "\<exists>n arr xl ll. n \<in> D \<and> fst (cv_folds lib n folds s0 [] None) = Inr (arr, snd best) \<and>
                    fst best = np_mean lib arr \<and> pf_less NegInf (np_mean lib arr) \<and> folds \<noteq> [] \<and>
                    combine_sequences (fst (last folds)) (sequences s0) = Inr (xl, ll) \<and>
                    base_model lib (s0\<lparr>X := xl, lengths := ll\<rparr>) n = Inr (snd best)"
      then obtain k a xl ll where "k \<in> D \<and> fst (cv_folds lib k folds s0 [] None) = Inr (a, snd best) \<and>
                    fst best = np_mean lib a \<and> pf_less NegInf (np_mean lib a) \<and> folds \<noteq> [] \<and>
                    combine_sequences (fst (last folds)) (sequences s0) = Inr (xl, ll) \<and>
                    base_model lib (s0\<lparr>X := xl, lengths := ll\<rparr>) k = Inr (snd best)" by blast
      with b have "k \<in> insert n D \<and> fst (cv_folds lib k folds s0 [] None) = Inr (a, snd best') \<and>
                    fst best' = np_mean lib a \<and> pf_less NegInf (np_mean lib a) \<and> folds \<noteq> [] \<and>
                    combine_sequences (fst (last folds)) (sequences s0) = Inr (xl, ll) \<and>
                    base_model lib (s0\<lparr>X := xl, lengths := ll\<rparr>) k = Inr (snd best')" by simp
      then show ?thesis by blast
    qed
  qed
  from Cons.IH[OF fr cont low' top' won'] show ?case by simp
qed


text \<open>
  Claim C4, as amended. When the search of SelectorCV completes with a model, \<open>select\<close>
  returns that model as the fold loop left it: it is the fit on the training split of the
  last fold only, at a state count of the range whose average held-out log-likelihood, as
  \<^verbatim>\<open>np.mean\<close> computes it, compares greater than \<^verbatim>\<open>-inf\<close> and is compared greater by
  that of no other state count of the range. There is no refit on the full word data.
\<close>

theorem SelectorCV_returns_last_fold_model:
  assumes "cv_split (sequences s) = Inr folds"
      and "cv_loop lib s [min_n_components s .. max_n_components s] (NegInf, None)
           = (Inr (Some m), s')"
  shows "SelectorCV_select lib s = (Inr (Some m), s') \<and> folds \<noteq> [] \<and>
         (\<exists>n arr xl ll.
             min_n_components s \<le> n \<and> n \<le> max_n_components s \<and>
             combine_sequences (fst (last folds)) (sequences s) = Inr (xl, ll) \<and>
             base_model lib (s\<lparr>X := xl, lengths := ll\<rparr>) n = Inr (Some m) \<and>
             fst (cv_folds lib n folds s [] None) = Inr (arr, Some m) \<and>
             pf_less NegInf (np_mean lib arr) \<and>
             (\<forall>k arr' m'. min_n_components s \<le> k \<and> k \<le> max_n_components s \<and>
                  fst (cv_folds lib k folds s [] None) = Inr (arr', m')
                \<longrightarrow> \<not> pf_less (np_mean lib arr) (np_mean lib arr')))"
proof -
  let ?ns = "[min_n_components s .. max_n_components s]"
  have sel: "SelectorCV_select lib s = (Inr (Some m), s')"
    using assms(2) by (simp add: SelectorCV_select_def)
  have t: "s = s\<lparr>X := X s, lengths := lengths s\<rparr>" by simp
  have low: "fst (NegInf, None :: 'a option) = NegInf \<or> pf_less NegInf (fst (NegInf, None :: 'a option))"
    by simp
  have top: "\<forall>k arr' m'. k \<in> {} \<and> fst (cv_folds lib k folds s [] None) = Inr (arr', m')
                  \<longrightarrow> \<not> pf_less (fst (NegInf, None :: 'a option)) (np_mean lib arr')"
    by simp
  have won: "snd (NegInf, None :: 'a option) = None \<or>
                (\<exists>n arr xl ll. n \<in> {} \<and> fst (cv_folds lib n folds s [] None) = Inr (arr, snd (NegInf, None :: 'a option)) \<and>
                    fst (NegInf, None :: 'a option) = np_mean lib arr \<and> pf_less NegInf (np_mean lib arr) \<and> folds \<noteq> [] \<and>
                    combine_sequences (fst (last folds)) (sequences s) = Inr (xl, ll) \<and>
                    base_model lib (s\<lparr>X := xl, lengths := ll\<rparr>) n = Inr (snd (NegInf, None :: 'a option)))"
    by simp
  from cv_loop_done[OF assms(1) t assms(2) low top won]
  obtain sc where both: "(\<forall>k arr' m'. k \<in> {} \<union> set ?ns \<and>
                    fst (cv_folds lib k folds s [] None) = Inr (arr', m')
                  \<longrightarrow> \<not> pf_less sc (np_mean lib arr')) \<and>
       (Some m = None \<or> (\<exists>n arr xl ll. n \<in> {} \<union> set ?ns \<and>
                    fst (cv_folds lib n folds s [] None) = Inr (arr, Some m) \<and>
                    sc = np_mean lib arr \<and> pf_less NegInf (np_mean lib arr) \<and> folds \<noteq> [] \<and>
                    combine_sequences (fst (last folds)) (sequences s) = Inr (xl, ll) \<and>
                    base_model lib (s\<lparr>X := xl, lengths := ll\<rparr>) n = Inr (Some m)))" ..
  from both have mx: "\<forall>k arr' m'. k \<in> {} \<union> set ?ns \<and>
                    fst (cv_folds lib k folds s [] None) = Inr (arr', m')
                  \<longrightarrow> \<not> pf_less sc (np_mean lib arr')" ..
  from both have "Some m = None \<or> (\<exists>n arr xl ll. n \<in> {} \<union> set ?ns \<and>
                    fst (cv_folds lib n folds s [] None) = Inr (arr, Some m) \<and>
                    sc = np_mean lib arr \<and> pf_less NegInf (np_mean lib arr) \<and> folds \<noteq> [] \<and>
                    combine_sequences (fst (last folds)) (sequences s) = Inr (xl, ll) \<and>
                    base_model lib (s\<lparr>X := xl, lengths := ll\<rparr>) n = Inr (Some m))" ..
  then have w: "\<exists>n arr xl ll. n \<in> {} \<union> set ?ns \<and>
                    fst (cv_folds lib n folds s [] None) = Inr (arr, Some m) \<and>
                    sc = np_mean lib arr \<and> pf_less NegInf (np_mean lib arr) \<and> folds \<noteq> [] \<and>
                    combine_sequences (fst (last folds)) (sequences s) = Inr (xl, ll) \<and>
                    base_model lib (s\<lparr>X := xl, lengths := ll\<rparr>) n = Inr (Some m)"
    by (elim disjE) simp_all
  from w obtain n arr xl ll where allw: "n \<in> {} \<union> set ?ns \<and>
                    fst (cv_folds lib n folds s [] None) = Inr (arr, Some m) \<and>
                    sc = np_mean lib arr \<and> pf_less NegInf (np_mean lib arr) \<and> folds \<noteq> [] \<and>
                    combine_sequences (fst (last folds)) (sequences s) = Inr (xl, ll) \<and>
                    base_model lib (s\<lparr>X := xl, lengths := ll\<rparr>) n = Inr (Some m)"
    by (elim exE)
  then have n: "n \<in> set ?ns"
    and a: "fst (cv_folds lib n folds s [] None) = Inr (arr, Some m)"
    and sc: "sc = np_mean lib arr" and pos: "pf_less NegInf (np_mean lib arr)" and ne: "folds \<noteq> []"
    and lst: "combine_sequences (fst (last folds)) (sequences s) = Inr (xl, ll)"
    and md: "base_model lib (s\<lparr>X := xl, lengths := ll\<rparr>) n = Inr (Some m)"
    by simp_all
  have rng: "min_n_components s \<le> n \<and> n \<le> max_n_components s" using n by simp
  have best: "\<forall>k arr' m'. min_n_components s \<le> k \<and> k \<le> max_n_components s \<and>
                  fst (cv_folds lib k folds s [] None) = Inr (arr', m')
                \<longrightarrow> \<not> pf_less (np_mean lib arr) (np_mean lib arr')"
    using mx sc by simp
  from rng lst md a pos best have "\<exists>n arr xl ll.
             min_n_components s \<le> n \<and> n \<le> max_n_components s \<and>
             combine_sequences (fst (last folds)) (sequences s) = Inr (xl, ll) \<and>
             base_model lib (s\<lparr>X := xl, lengths := ll\<rparr>) n = Inr (Some m) \<and>
             fst (cv_folds lib n folds s [] None) = Inr (arr, Some m) \<and>
             pf_less NegInf (np_mean lib arr) \<and>
             (\<forall>k arr' m'. min_n_components s \<le> k \<and> k \<le> max_n_components s \<and>
                  fst (cv_folds lib k folds s [] None) = Inr (arr', m')
                \<longrightarrow> \<not> pf_less (np_mean lib arr) (np_mean lib arr'))"
    by blast
  with sel ne show ?thesis by blast
qed

lemma three_pairs_split:
  "cv_split (sequences three_pairs) = Inr [([1, 2], [0]), ([0, 2], [1]), ([0, 1], [2])]"
  by (simp add: three_pairs_def cv_split_def KFold_def KFold_split_def fold_sizes_def upt_rec)

lemma three_pairs_folds:
  "cv_folds toy 2 [([1, 2], [0]), ([0, 2], [1]), ([0, 1], [2])] three_pairs [] None
   = (Inr ([Finite (- 4), Finite (- 4), Finite (- 4)],
           Some (ToyModel 2 [[1], [2], [3], [4]] [2, 2])),
      three_pairs\<lparr>X := [[1], [2], [3], [4]], lengths := [2, 2]\<rparr>)"
  by (simp add: three_pairs_def cv_fold_def combine_sequences_def base_model_def
        model_score_def toy_def toy_fit_def)

lemma three_pairs_loop:
  "cv_loop toy three_pairs [min_n_components three_pairs .. max_n_components three_pairs]
     (NegInf, None)
   = (Inr (Some (ToyModel 2 [[1], [2], [3], [4]] [2, 2])),
      three_pairs\<lparr>X := [[1], [2], [3], [4]], lengths := [2, 2]\<rparr>)"
  by (simp add: three_pairs_def cv_body_def cv_split_def KFold_def
        KFold_split_def fold_sizes_def cv_fold_def combine_sequences_def base_model_def
        model_score_def toy_def toy_fit_def np_mean_def exact_mean_def upto.simps upt_rec)

theorem SelectorCV_returns_last_fold_model_witness:
  "cv_split (sequences three_pairs) = Inr [([1, 2], [0]), ([0, 2], [1]), ([0, 1], [2])]
   \<and> cv_loop toy three_pairs [min_n_components three_pairs .. max_n_components three_pairs]
        (NegInf, None)
      = (Inr (Some (ToyModel 2 [[1], [2], [3], [4]] [2, 2])),
         three_pairs\<lparr>X := [[1], [2], [3], [4]], lengths := [2, 2]\<rparr>)
   \<and> SelectorCV_select toy three_pairs
      = (Inr (Some (ToyModel 2 [[1], [2], [3], [4]] [2, 2])),
         three_pairs\<lparr>X := [[1], [2], [3], [4]], lengths := [2, 2]\<rparr>)
   \<and> combine_sequences (fst (last [([1, 2], [0]), ([0, 2], [1]), ([0, 1], [2])]))
        (sequences three_pairs) = Inr ([[1], [2], [3], [4]], [2, 2])
   \<and> min_n_components three_pairs \<le> 2 \<and> 2 \<le> max_n_components three_pairs
   \<and> fst (cv_folds toy 2 [([1, 2], [0]), ([0, 2], [1]), ([0, 1], [2])] three_pairs [] None)
      = Inr ([Finite (- 4), Finite (- 4), Finite (- 4)],
             Some (ToyModel 2 [[1], [2], [3], [4]] [2, 2]))
   \<and> np_mean toy [Finite (- 4), Finite (- 4), Finite (- 4)] = Finite (- 4)
   \<and> pf_less NegInf (Finite (- 4)) \<and> \<not> pf_less (Finite (- 4)) (Finite (- 4))"
proof -
  note r = SelectorCV_returns_last_fold_model[OF three_pairs_split three_pairs_loop]
  have c: "combine_sequences (fst (last [([1, 2], [0]), ([0, 2], [1]), ([0, 1], [2])]))
        (sequences three_pairs) = Inr ([[1], [2], [3], [4]], [2, 2])"
    by (simp add: three_pairs_def combine_sequences_def)
  have b: "min_n_components three_pairs \<le> 2" "2 \<le> max_n_components three_pairs"
    by (simp_all add: three_pairs_def)
  have f: "fst (cv_folds toy 2 [([1, 2], [0]), ([0, 2], [1]), ([0, 1], [2])] three_pairs [] None)
      = Inr ([Finite (- 4), Finite (- 4), Finite (- 4)],
             Some (ToyModel 2 [[1], [2], [3], [4]] [2, 2]))"
    unfolding three_pairs_folds by simp
  have m: "np_mean toy [Finite (- 4), Finite (- 4), Finite (- 4)] = Finite (- 4)"
    "pf_less NegInf (Finite (- 4))" "\<not> pf_less (Finite (- 4)) (Finite (- 4))"
    by (simp_all add: np_mean_def exact_mean_def toy_def)
  from r c b f m three_pairs_split three_pairs_loop show ?thesis by blast
qed

text \<open>
  Claim C4 as stated fails. For a word with three sequences of two frames and the single
  candidate of 2 states, \<open>select\<close> returns the model fitted on the four frames of the
  first two sequences, the training split of the last fold; the fit of 2 states on the full
  word data is another model, on six frames.
\<close>

theorem SelectorCV_no_refit_counterexample:
  "fst (SelectorCV_select toy three_pairs)
     = Inr (Some (ToyModel 2 [[1], [2], [3], [4]] [2, 2]))
   \<and> base_model toy three_pairs 2
     = Inr (Some (ToyModel 2 [[1], [2], [3], [4], [5], [6]] [2, 2, 2]))
   \<and> fst (SelectorCV_select toy three_pairs) \<noteq> base_model toy three_pairs 2"
  by (simp add: three_pairs_def SelectorCV_select_def cv_body_def cv_split_def KFold_def
        KFold_split_def fold_sizes_def cv_fold_def combine_sequences_def base_model_def
        model_score_def toy_def toy_fit_def np_mean_def exact_mean_def upto.simps upt_rec)

subsection \<open>SelectorCV: the folds\<close>















subsection \<open>SelectorBIC: no score is ever formed\<close>

text \<open>
  Claim C2 fails on the code. On the word A of \<open>three_words\<close> (three frames of one
  feature, search range 2 to 3, constant 1) both candidates fit and score, with
  log-likelihoods -6 and -9, and the score of the claim is lower for 2 states than for 3;
  the claim has \<open>select\<close> return the 2-state model. \<open>SelectorBIC_select\<close> returns the
  1-state model of the constant fallback: the first pass raises NameError before any score
  is formed.
\<close>

theorem SelectorBIC_ignores_scores:
  "base_model toy three_words 2 = Inr (Some (ToyModel 2 [[1], [2], [3]] [3]))
   \<and> base_model toy three_words 3 = Inr (Some (ToyModel 3 [[1], [2], [3]] [3]))
   \<and> hmm_score toy (ToyModel 2 [[1], [2], [3]] [3]) (X three_words) (lengths three_words)
       = Inr (Finite (- 6))
   \<and> hmm_score toy (ToyModel 3 [[1], [2], [3]] [3]) (X three_words) (lengths three_words)
       = Inr (Finite (- 9))
   \<and> spec_bic_score (- 6) 2 1 3 < spec_bic_score (- 9) 3 1 3
   \<and> bic_body toy three_words (PosInf, None) 2 = Inl NameError
   \<and> SelectorBIC_select toy three_words = Inr (Some (ToyModel 1 [[1], [2], [3]] [3]))"
proof -
  have "(0 :: real) < ln 3" by simp
  then have "0 < 7 * ln 3 + (6 :: real)" by linarith
  then have "spec_bic_score (- 6) 2 1 3 < spec_bic_score (- 9) 3 1 3"
    by (simp add: spec_bic_score_def)
  moreover have "base_model toy three_words 2 = Inr (Some (ToyModel 2 [[1], [2], [3]] [3]))"
    "base_model toy three_words 3 = Inr (Some (ToyModel 3 [[1], [2], [3]] [3]))"
    by (simp_all add: three_words_def base_model_def toy_def toy_fit_def)
  moreover have
    "hmm_score toy (ToyModel 2 [[1], [2], [3]] [3]) (X three_words) (lengths three_words)
       = Inr (Finite (- 6))"
    "hmm_score toy (ToyModel 3 [[1], [2], [3]] [3]) (X three_words) (lengths three_words)
       = Inr (Finite (- 9))"
    by (simp_all add: three_words_def toy_def)
  moreover have "bic_body toy three_words (PosInf, None) 2 = Inl NameError"
    by (simp add: three_words_def bic_body_def load_name_n_def base_model_def
          model_score_def toy_def toy_fit_def)
  moreover have
    "SelectorBIC_select toy three_words = Inr (Some (ToyModel 1 [[1], [2], [3]] [3]))"
    by (simp add: three_words_def SelectorBIC_select_def bic_body_def load_name_n_def
          base_model_def model_score_def toy_def toy_fit_def upto.simps)
  ultimately show ?thesis by blast
qed

subsection \<open>SelectorCV: the fallback after a failed fold\<close>

text \<open>
  Claim C7 fails on the code for SelectorCV. On \<open>long_first\<close> the first fold of the
  first candidate holds out sequence 0, and line 151 puts the training split, the two
  frames of sequences 1 and 2, into \<^verbatim>\<open>X\<close> and \<^verbatim>\<open>lengths\<close>. Three states cannot be fitted
  on two frames, \<open>base_model\<close> returns \<^verbatim>\<open>None\<close>, scoring it raises AttributeError and
  the search is given up. The fallback model is then fitted on these two frames, not on the
  five frames of the word, on which SelectorConstant and the fallback of SelectorBIC fit it.
\<close>

theorem SelectorCV_fallback_on_training_split:
  "X long_first = [[1], [2], [3], [4], [5]] \<and> lengths long_first = [3, 1, 1]
   \<and> n_constant long_first = 2
   \<and> cv_split (sequences long_first) = Inr [([1, 2], [0]), ([0, 2], [1]), ([0, 1], [2])]
   \<and> cv_fold toy 3 long_first [] ([1, 2], [0])
       = (Inl AttributeError, long_first\<lparr>X := [[4], [5]], lengths := [1, 1]\<rparr>)
   \<and> SelectorCV_select toy long_first
       = (Inr (Some (ToyModel 2 [[4], [5]] [1, 1])),
          long_first\<lparr>X := [[4], [5]], lengths := [1, 1]\<rparr>)
   \<and> SelectorConstant_select toy long_first
       = Inr (Some (ToyModel 2 [[1], [2], [3], [4], [5]] [3, 1, 1]))
   \<and> SelectorBIC_select toy long_first
       = Inr (Some (ToyModel 2 [[1], [2], [3], [4], [5]] [3, 1, 1]))"
proof -
  have "X long_first = [[1], [2], [3], [4], [5]]" "lengths long_first = [3, 1, 1]"
    "n_constant long_first = 2"
    by (simp_all add: long_first_def)
  moreover have
    "cv_split (sequences long_first) = Inr [([1, 2], [0]), ([0, 2], [1]), ([0, 1], [2])]"
    by (simp add: long_first_def cv_split_def KFold_def KFold_split_def fold_sizes_def upt_rec)
  moreover have "cv_fold toy 3 long_first [] ([1, 2], [0])
       = (Inl AttributeError, long_first\<lparr>X := [[4], [5]], lengths := [1, 1]\<rparr>)"
    by (simp add: long_first_def cv_fold_def combine_sequences_def base_model_def
          model_score_def toy_def toy_fit_def)
  moreover have "SelectorCV_select toy long_first
       = (Inr (Some (ToyModel 2 [[4], [5]] [1, 1])),
          long_first\<lparr>X := [[4], [5]], lengths := [1, 1]\<rparr>)"
    by (simp add: long_first_def SelectorCV_select_def cv_body_def cv_split_def KFold_def
          KFold_split_def fold_sizes_def cv_fold_def combine_sequences_def base_model_def
          model_score_def toy_def toy_fit_def np_mean_def exact_mean_def upto.simps upt_rec)
  moreover have "SelectorConstant_select toy long_first
       = Inr (Some (ToyModel 2 [[1], [2], [3], [4], [5]] [3, 1, 1]))"
    by (simp add: long_first_def SelectorConstant_select_def base_model_def toy_def toy_fit_def)
  moreover have "SelectorBIC_select toy long_first
       = Inr (Some (ToyModel 2 [[1], [2], [3], [4], [5]] [3, 1, 1]))"
    by (simp add: long_first_def SelectorBIC_select_def bic_body_def load_name_n_def
          base_model_def model_score_def toy_def toy_fit_def upto.simps)
  ultimately show ?thesis by blast
qed

subsection \<open>SelectorDIC: a corpus of one word\<close>

text \<open>With no other word every score of SelectorDIC is \<^verbatim>\<open>nan\<close> and no candidate is kept.\<close>

lemma dic_scores_alone:
  assumes "\<forall>w \<in> set ws. w = this_word s"
  shows "dic_scores lib s hmm_model ws scores = Inr scores"
  using assms by (induction ws) simp_all

lemma pf_sub_nan: "pf_sub rnd a NaN = NaN"
  by (cases a) (simp_all add: pf_sub_def)

lemma pf_less_nan: "\<not> pf_less a NaN"
  by (cases a) simp_all

lemma dic_body_alone:
  assumes "\<forall>w \<in> set ws. w = this_word s"
      and "base_model lib s n = Inr (Some m)" and "hmm_score lib m (X s) (lengths s) = Inr v"
  shows "dic_body lib s ws best n = Inr best"
  using assms
  by (simp add: dic_body_def dic_scores_alone model_score_def np_mean_def pf_sub_nan pf_less_nan)

lemma dic_loop_alone:
  assumes "\<forall>w \<in> set ws. w = this_word s"
      and "\<forall>n \<in> set ns. \<exists>m v. base_model lib s n = Inr (Some m) \<and>
               hmm_score lib m (X s) (lengths s) = Inr v"
  shows "dic_loop lib s ws ns best = Inr (snd best)"
  using assms(2)
proof (induction ns)
  case Nil
  then show ?case by simp
next
  case (Cons n rest)
  then obtain m v where "base_model lib s n = Inr (Some m)" "hmm_score lib m (X s) (lengths s) = Inr v"
    by auto
  from dic_body_alone[OF assms(1) this] Cons show ?case by simp
qed

text \<open>
  Claim C10 fails on the code. When the corpus holds no word but the selector's own and
  every candidate of the range fits and scores the word's data, no exception is raised:
  each score is the own log-likelihood minus \<^verbatim>\<open>np.mean([])\<close>, that is \<^verbatim>\<open>nan\<close>, no
  comparison with it holds, and \<open>select\<close> returns \<^verbatim>\<open>None\<close>, not the constant fallback.
\<close>

theorem SelectorDIC_alone_returns_None:
  assumes "\<forall>w \<in> set (map fst (words s)). w = this_word s"
      and "\<forall>n. min_n_components s \<le> n \<and> n \<le> max_n_components s \<longrightarrow>
               (\<exists>m v. base_model lib s n = Inr (Some m) \<and> hmm_score lib m (X s) (lengths s) = Inr v)"
  shows "SelectorDIC_select lib s = Inr None"
proof -
  have "\<forall>n \<in> set [min_n_components s .. max_n_components s].
          \<exists>m v. base_model lib s n = Inr (Some m) \<and> hmm_score lib m (X s) (lengths s) = Inr v"
    using assms(2) by simp
  from dic_loop_alone[OF assms(1) this, of "(NegInf, None)"]
  show ?thesis by (simp add: SelectorDIC_select_def)
qed

theorem SelectorDIC_alone_returns_None_witness:
  "map fst (words one_word) = [''A''] \<and> this_word one_word = ''A''
   \<and> base_model toy one_word 2 = Inr (Some (ToyModel 2 [[1], [2], [3]] [3]))
   \<and> base_model toy one_word 3 = Inr (Some (ToyModel 3 [[1], [2], [3]] [3]))
   \<and> hmm_score toy (ToyModel 2 [[1], [2], [3]] [3]) (X one_word) (lengths one_word)
       = Inr (Finite (- 6))
   \<and> hmm_score toy (ToyModel 3 [[1], [2], [3]] [3]) (X one_word) (lengths one_word)
       = Inr (Finite (- 9))
   \<and> SelectorDIC_select toy one_word = Inr None
   \<and> base_model toy one_word (n_constant one_word) = Inr (Some (ToyModel 3 [[1], [2], [3]] [3]))"
proof -
  have w: "map fst (words one_word) = [''A'']" "this_word one_word = ''A''"
    by (simp_all add: one_word_def)
  have f: "base_model toy one_word 2 = Inr (Some (ToyModel 2 [[1], [2], [3]] [3]))"
    "base_model toy one_word 3 = Inr (Some (ToyModel 3 [[1], [2], [3]] [3]))"
    "base_model toy one_word (n_constant one_word) = Inr (Some (ToyModel 3 [[1], [2], [3]] [3]))"
    by (simp_all add: one_word_def base_model_def toy_def toy_fit_def)
  have sc: "hmm_score toy (ToyModel 2 [[1], [2], [3]] [3]) (X one_word) (lengths one_word)
       = Inr (Finite (- 6))"
    "hmm_score toy (ToyModel 3 [[1], [2], [3]] [3]) (X one_word) (lengths one_word)
       = Inr (Finite (- 9))"
    by (simp_all add: one_word_def toy_def)
  have h1: "\<forall>w \<in> set (map fst (words one_word)). w = this_word one_word"
    using w by simp
  have rng: "n = 2 \<or> n = 3"
    if "min_n_components one_word \<le> n \<and> n \<le> max_n_components one_word" for n
    using that by (auto simp: one_word_def)
  have h2: "\<forall>n. min_n_components one_word \<le> n \<and> n \<le> max_n_components one_word \<longrightarrow>
               (\<exists>m v. base_model toy one_word n = Inr (Some m) \<and>
                       hmm_score toy m (X one_word) (lengths one_word) = Inr v)"
    using rng f sc by blast
  from SelectorDIC_alone_returns_None[OF h1 h2] w f sc show ?thesis by blast
qed

end
